theory Spec2Isabelle
  imports Main "HOL-Library.AList" "HOL-Library.Char_ord" "HOL-Library.List_Lexorder"
    "HOL-Library.Product_Lexorder" "HOL-Library.Multiset"
begin

section \<open>Package and type-token resolution of pkg/pulumiyaml/packages.go\<close>

text \<open>
  This theory embeds \<^verbatim>\<open>pkg/pulumiyaml/packages.go\<close>: the scan of a template for the
  packages it references (\<^verbatim>\<open>GetReferencedPackages\<close>), the selection of a package
  descriptor (\<^verbatim>\<open>loadPackage\<close>), the policy checks of the top-level
  \<^verbatim>\<open>ResolveResource\<close>, and the canonicalisation of type tokens
  (\<^verbatim>\<open>resolveToken\<close> and the methods of \<^verbatim>\<open>resourcePackage\<close>).

  Go strings are byte strings and are modelled as \<^typ>\<open>string\<close>; the order \<open><\<close> on them is
  the lexicographic order on bytes, as Go's \<^verbatim>\<open><\<close> on strings.
\<close>

subsection \<open>Strings\<close>

text \<open>
  \<^verbatim>\<open>strings.Split(s, ":")\<close> with a one-byte separator: the segments between the
  separators, in order. The result is never empty; the empty string gives one empty segment.
\<close>

fun strings_Split :: "string \<Rightarrow> char \<Rightarrow> string list" where
  "strings_Split [] sep = [[]]"
| "strings_Split (c # cs) sep =
     (if c = sep then [] # strings_Split cs sep
      else (case strings_Split cs sep of
              [] \<Rightarrow> [[c]]
            | p # ps \<Rightarrow> (c # p) # ps))"

text \<open>\<^verbatim>\<open>ResolvePkgName\<close> (lines 225-234).\<close>

definition ResolvePkgName :: "string \<Rightarrow> string" where
  "ResolvePkgName typeString =
     (let typeParts = strings_Split typeString CHR '':'' in
      if length typeParts = 3 \<and> typeParts ! 0 = ''pulumi'' \<and> typeParts ! 1 = ''providers''
      then typeParts ! 2
      else typeParts ! 0)"

subsection \<open>The template, as the scan reads it\<close>

text \<open>
  Modelled from the spec: the declarations of \<^verbatim>\<open>packages.PackageDecl\<close> and its
  parameterization are not in this file. A package declaration is
  \<open>{name, version, downloadURL, parameterization?}\<close>, the parameterization a sub-identity with
  its own name and version; an empty version or URL means unspecified.
\<close>

record ParameterizationDecl =
  pz_Name :: string
  pz_Version :: string

record PackageDecl =
  pd_Name :: string
  pd_Version :: string
  pd_DownloadURL :: string
  pd_Parameterization :: "ParameterizationDecl option"

text \<open>
  Modelled from the spec: the AST (\<^verbatim>\<open>ast.StringExpr\<close>, resources, invoke expressions)
  is not in this file. A string expression carries its value and the syntax node it was parsed
  from (a number standing for the source range); a nil expression is \<open>None\<close> and
  \<^verbatim>\<open>GetValue\<close> of it is the empty string. A resource carries a key, a type and the
  options \<^verbatim>\<open>version\<close> and \<^verbatim>\<open>pluginDownloadURL\<close>; an invoke expression a token
  and the same call options.
\<close>

record StringExpr =
  se_Value :: string
  se_Syntax :: nat

definition GetValue :: "StringExpr option \<Rightarrow> string" where
  "GetValue e = (case e of None \<Rightarrow> [] | Some x \<Rightarrow> se_Value x)"

record ResourceDecl =
  rs_Key :: string
  rs_Syntax :: nat
  rs_Type :: "StringExpr option"
  rs_Version :: "StringExpr option"
  rs_PluginDownloadURL :: "StringExpr option"

record InvokeExpr =
  iv_Syntax :: nat
  iv_Token :: "StringExpr option"
  iv_Version :: "StringExpr option"
  iv_PluginDownloadURL :: "StringExpr option"

datatype Expr = Invoke InvokeExpr | OtherExpr

text \<open>
  Modelled from the spec: the runner and its walker are not in this file. The walk of a
  template calls \<^verbatim>\<open>VisitResource\<close> on each resource node and \<^verbatim>\<open>VisitExpr\<close> on
  each expression; the template carries the sequence of these visits, in the order the walker
  makes them.
\<close>

datatype Visit = VisitResource ResourceDecl | VisitExpr Expr

record TemplateDecl =
  tm_Packages :: "PackageDecl list"
  tm_Walk :: "Visit list"

text \<open>
  Modelled from the spec: the diagnostics (\<^verbatim>\<open>syntax.Diagnostics\<close>,
  \<^verbatim>\<open>ast.ExprError\<close>, \<^verbatim>\<open>syntax.NodeError\<close>, \<^verbatim>\<open>HasErrors\<close>) are not in
  this file. A diagnostic is a structured error tied to an AST node; the accumulator is
  append-only; \<^verbatim>\<open>ExprError\<close> and \<^verbatim>\<open>NodeError\<close> build error diagnostics, and
  \<^verbatim>\<open>HasErrors\<close> holds when some diagnostic is an error. The summaries keep the
  arguments of the source's format strings:
  \<^item> \<open>ConflictingVersion pkg v\<close>:
    \<^verbatim>\<open>"Package %v already declared with a conflicting version: %v"\<close>;
  \<^item> \<open>ConflictingDownloadURL pkg url\<close>:
    \<^verbatim>\<open>"Package %v already declared with a conflicting plugin download URL: %v"\<close>;
  \<^item> \<open>ResourceWithoutType key\<close>: \<^verbatim>\<open>"Resource declared without a 'type': %q"\<close>;
  \<^item> \<open>InvokeWithoutFunction\<close>: \<^verbatim>\<open>"Invoke declared without a 'function' type"\<close>.
\<close>

datatype Severity = DiagError | DiagWarning

datatype Summary =
  ConflictingVersion string string
| ConflictingDownloadURL string string
| ResourceWithoutType string
| InvokeWithoutFunction

record Diagnostic =
  dg_Severity :: Severity
  dg_Subject :: "nat option"
  dg_Summary :: Summary

definition ExprError :: "StringExpr option \<Rightarrow> Summary \<Rightarrow> Diagnostic" where
  "ExprError expr summary =
     \<lparr>dg_Severity = DiagError, dg_Subject = map_option se_Syntax expr, dg_Summary = summary\<rparr>"

definition NodeError :: "nat \<Rightarrow> Summary \<Rightarrow> Diagnostic" where
  "NodeError node summary =
     \<lparr>dg_Severity = DiagError, dg_Subject = Some node, dg_Summary = summary\<rparr>"

definition HasErrors :: "Diagnostic list \<Rightarrow> bool" where
  "HasErrors diags = list_ex (\<lambda>d. dg_Severity d = DiagError) diags"

subsection \<open>The scan: \<^verbatim>\<open>GetReferencedPackages\<close>\<close>

text \<open>
  \<^verbatim>\<open>packageMap\<close> is a Go map from package names to pointers to declarations. The
  pointers are held by the map only, so an assignment through one is an update of the map at
  that key. The map is an association list with distinct keys, in order of insertion:
  \<^const>\<open>map_of\<close> looks a key up, \<^const>\<open>AList.update\<close> replaces the value of a present key
  in place and appends an absent one.
\<close>

type_synonym PackageMap = "(string \<times> PackageDecl) list"

text \<open>The body of the loop over \<^verbatim>\<open>tmpl.Packages\<close> (lines 115-134).\<close>

definition declarePackage :: "PackageDecl \<Rightarrow> PackageMap \<Rightarrow> PackageMap" where
  "declarePackage pkg packageMap =
     (let name = (case pd_Parameterization pkg of None \<Rightarrow> pd_Name pkg | Some p \<Rightarrow> pz_Name p);
          version = (case pd_Parameterization pkg of
                       None \<Rightarrow> pd_Version pkg | Some p \<Rightarrow> pz_Version p)
      in case map_of packageMap name of
           Some entry \<Rightarrow>
             (let entry1 = (if pd_Version entry = [] then entry\<lparr>pd_Version := version\<rparr>
                            else entry);
                  entry2 = (if pd_DownloadURL entry1 = []
                            then entry1\<lparr>pd_DownloadURL := pd_DownloadURL pkg\<rparr>
                            else entry1)
              in AList.update name entry2 packageMap)
         | None \<Rightarrow> AList.update name pkg packageMap)"

fun declarePackages :: "PackageDecl list \<Rightarrow> PackageMap \<Rightarrow> PackageMap" where
  "declarePackages [] packageMap = packageMap"
| "declarePackages (pkg # pkgs) packageMap = declarePackages pkgs (declarePackage pkg packageMap)"

text \<open>
  The closure \<^verbatim>\<open>acceptType\<close> (lines 136-160). It reads and writes \<^verbatim>\<open>packageMap\<close>
  and extends the diagnostics of the runner; both are passed and returned.
\<close>

definition acceptType ::
  "string \<Rightarrow> StringExpr option \<Rightarrow> StringExpr option \<Rightarrow> PackageMap \<times> Diagnostic list
     \<Rightarrow> PackageMap \<times> Diagnostic list" where
  "acceptType typeName version pluginDownloadURL st =
     (case st of (packageMap, sdiags) \<Rightarrow>
        (let pkg = ResolvePkgName typeName in
         (case map_of packageMap pkg of
            Some entry \<Rightarrow>
              (let v = GetValue version;
                   (entry1, sdiags1) =
                     (if v \<noteq> [] \<and> pd_Version entry \<noteq> v
                      then (if pd_Version entry = []
                            then (entry\<lparr>pd_Version := v\<rparr>, sdiags)
                            else (entry, sdiags @
                                    [ExprError version
                                       (ConflictingVersion pkg (pd_Version entry))]))
                      else (entry, sdiags));
                   url = GetValue pluginDownloadURL;
                   (entry2, sdiags2) =
                     (if url \<noteq> [] \<and> pd_DownloadURL entry1 \<noteq> url
                      then (if pd_DownloadURL entry1 = []
                            then (entry1\<lparr>pd_DownloadURL := url\<rparr>, sdiags1)
                            else (entry1, sdiags1 @
                                    [ExprError pluginDownloadURL
                                       (ConflictingDownloadURL pkg (pd_DownloadURL entry1))]))
                      else (entry1, sdiags1))
               in (AList.update pkg entry2 packageMap, sdiags2))
          | None \<Rightarrow>
              (AList.update pkg
                 \<lparr>pd_Name = pkg, pd_Version = GetValue version,
                  pd_DownloadURL = GetValue pluginDownloadURL, pd_Parameterization = None\<rparr>
                 packageMap,
               sdiags))))"

text \<open>The two visitors handed to the walker (lines 163-183).\<close>

definition visit :: "Visit \<Rightarrow> PackageMap \<times> Diagnostic list \<Rightarrow> PackageMap \<times> Diagnostic list" where
  "visit node st =
     (case node of
        VisitResource res \<Rightarrow>
          (case rs_Type res of
             None \<Rightarrow> (fst st, snd st @ [NodeError (rs_Syntax res) (ResourceWithoutType (rs_Key res))])
           | Some ty \<Rightarrow> acceptType (se_Value ty) (rs_Version res) (rs_PluginDownloadURL res) st)
      | VisitExpr (Invoke expr) \<Rightarrow>
          (case iv_Token expr of
             None \<Rightarrow> (fst st, snd st @ [NodeError (iv_Syntax expr) InvokeWithoutFunction])
           | Some tk \<Rightarrow> acceptType (GetValue (Some tk)) (iv_Version expr) (iv_PluginDownloadURL expr) st)
      | VisitExpr OtherExpr \<Rightarrow> st)"

fun Run :: "Visit list \<Rightarrow> PackageMap \<times> Diagnostic list \<Rightarrow> PackageMap \<times> Diagnostic list" where
  "Run [] st = st"
| "Run (node # nodes) st = Run nodes (visit node st)"

text \<open>
  The comparison handed to \<^verbatim>\<open>sort.Slice\<close> (lines 199-220), a function literal of
  the source, on two declarations.
\<close>

definition packageLess :: "PackageDecl \<Rightarrow> PackageDecl \<Rightarrow> bool" where
  "packageLess pI pJ =
     (if pd_Name pI \<noteq> pd_Name pJ then pd_Name pI < pd_Name pJ
      else if pd_Version pI \<noteq> pd_Version pJ then pd_Version pI < pd_Version pJ
      else if pd_Parameterization pI = None \<and> pd_Parameterization pJ = None
           then pd_DownloadURL pI < pd_DownloadURL pJ
      else case pd_Parameterization pI of
             None \<Rightarrow> True
           | Some zI \<Rightarrow>
               (case pd_Parameterization pJ of
                  None \<Rightarrow> False
                | Some zJ \<Rightarrow>
                    if pz_Name zI \<noteq> pz_Name zJ then pz_Name zI < pz_Name zJ
                    else pz_Version zI < pz_Version zJ))"

text \<open>
  \<^verbatim>\<open>sort.Slice\<close> sorts by the comparison it is given and is not stable. It is modelled
  by insertion sort; on the declarations of a package map, which the comparison tells apart
  pairwise, every sort by this comparison gives the same list (lemma
  \<open>sorted_specBefore_unique\<close> below), so neither the algorithm nor the order in which Go iterates over the map shows in the
  result.
\<close>

fun sort_insert :: "('a \<Rightarrow> 'a \<Rightarrow> bool) \<Rightarrow> 'a \<Rightarrow> 'a list \<Rightarrow> 'a list" where
  "sort_insert lt x [] = [x]"
| "sort_insert lt x (y # ys) = (if lt x y then x # y # ys else y # sort_insert lt x ys)"

fun sort_Slice :: "('a \<Rightarrow> 'a \<Rightarrow> bool) \<Rightarrow> 'a list \<Rightarrow> 'a list" where
  "sort_Slice lt [] = []"
| "sort_Slice lt (x # xs) = sort_insert lt x (sort_Slice lt xs)"

text \<open>
  The state of the scan when the walk is over (lines 112-184): the package map and the
  diagnostics of the run.
\<close>

definition scanTemplate :: "TemplateDecl \<Rightarrow> PackageMap \<times> Diagnostic list" where
  "scanTemplate tmpl = Run (tm_Walk tmpl) (declarePackages (tm_Packages tmpl) [], [])"

text \<open>
  \<^verbatim>\<open>GetReferencedPackages\<close> (lines 111-223). A nil slice is the empty list.
\<close>

definition GetReferencedPackages :: "TemplateDecl \<Rightarrow> PackageDecl list \<times> Diagnostic list" where
  "GetReferencedPackages tmpl =
     (case scanTemplate tmpl of (packageMap, diags) \<Rightarrow>
        if HasErrors diags then ([], diags)
        else (sort_Slice packageLess (filter (\<lambda>pkg. pd_Name pkg \<noteq> ''pulumi'') (map snd packageMap)),
              []))"

subsection \<open>Errors, versions and descriptors\<close>

text \<open>
  The errors the file returns, with the arguments of their format strings, and the errors of
  the collaborators: the sentinel \<^verbatim>\<open>schema.ErrGetSchemaNotImplemented\<close>, any other
  error, and an error wrapping another one.
  \<^item> \<open>InvalidTypeToken t\<close>: \<^verbatim>\<open>"invalid type token %q"\<close>;
  \<^item> \<open>ErrorLoadingSchema p e\<close>: \<^verbatim>\<open>"error loading schema for %q: %w"\<close>;
  \<^item> \<open>InternalErrorLoadingPackage p e\<close>: \<^verbatim>\<open>"internal error loading package %q: %w"\<close>;
  \<^item> \<open>ResourceTypeNotSupported t issue\<close>:
    \<^verbatim>\<open>"The resource type [%v] is not supported in YAML at this time, see: %v"\<close>;
  \<^item> \<open>HelmChartNotSupported\<close>: \<^verbatim>\<open>"Helm Chart resources are not supported in YAML,
    consider using the Helm Release resource instead: ..."\<close>;
  \<^item> \<open>DockerImageNotSupported\<close>: \<^verbatim>\<open>"Docker Image resources are not supported in YAML
    without major version >= 4, see: ..."\<close>;
  \<^item> \<open>UnableToFindResourceType t p\<close>:
    \<^verbatim>\<open>"unable to find resource type %q in resource provider %q"\<close>;
  \<^item> \<open>UnableToFindFunction t p\<close>: \<^verbatim>\<open>"unable to find function %q in resource provider %q"\<close>.
\<close>

datatype error =
  ErrGetSchemaNotImplemented
| ExternalError string
| WrappedError string error
| InvalidTypeToken string
| ErrorLoadingSchema string error
| InternalErrorLoadingPackage string error
| ResourceTypeNotSupported string string
| HelmChartNotSupported
| DockerImageNotSupported
| UnableToFindResourceType string string
| UnableToFindFunction string string

text \<open>\<^verbatim>\<open>errors.Is\<close>: the target is the error or is wrapped by it.\<close>

fun errors_Is :: "error \<Rightarrow> error \<Rightarrow> bool" where
  "errors_Is (WrappedError m e) target = (WrappedError m e = target \<or> errors_Is e target)"
| "errors_Is (ErrorLoadingSchema p e) target =
     (ErrorLoadingSchema p e = target \<or> errors_Is e target)"
| "errors_Is (InternalErrorLoadingPackage p e) target =
     (InternalErrorLoadingPackage p e = target \<or> errors_Is e target)"
| "errors_Is e target = (e = target)"

text \<open>
  \<^verbatim>\<open>contract.Assertf\<close> panics when its condition is false; a call that panics does not
  return.
\<close>

datatype 'a outcome = Panic | Return 'a

text \<open>
  \<^verbatim>\<open>semver.Version\<close> and \<^verbatim>\<open>schema.PackageDescriptor\<close>, of the libraries the file
  imports: a descriptor is a name, an optional version, an optional download URL and an
  optional parameterization. A nil version is \<open>None\<close>.
\<close>

record SemVer =
  sv_Major :: nat
  sv_Minor :: nat
  sv_Patch :: nat

record ParameterizationDescriptor =
  pzd_Name :: string
  pzd_Version :: SemVer

record PackageDescriptor =
  ds_Name :: string
  ds_Version :: "SemVer option"
  ds_DownloadURL :: string
  ds_Parameterization :: "ParameterizationDescriptor option"

subsection \<open>Packages and loaders\<close>

text \<open>
  The collaborators act on a world \<open>'w\<close> (the plugin host, the schema tables): every call of
  one takes the world and returns the new one, so that a call that is not made leaves the world
  as it was, whatever the collaborator.

  \<^verbatim>\<open>schema.PackageReference\<close>: a name, an optional version, and the tables of resources
  and functions with \<^verbatim>\<open>Get(token) -> (entry, found, err)\<close>. An entry that is found is
  not nil; of an entry the file reads the token (and, outside the operations modelled here, the
  component flag and the properties).
\<close>

record Resource =
  rc_Token :: string
  rc_IsComponent :: bool

record Function =
  fn_Token :: string

record 'w PackageReference =
  pr_Name :: string
  pr_Version :: "SemVer option"
  pr_Resources_Get :: "string \<Rightarrow> 'w \<Rightarrow> (Resource \<times> bool \<times> error option) \<times> 'w"
  pr_Functions_Get :: "string \<Rightarrow> 'w \<Rightarrow> (Function \<times> bool \<times> error option) \<times> 'w"

text \<open>
  The interface \<^verbatim>\<open>Package\<close> (lines 42-68), with the methods the operations below call,
  and the interface \<^verbatim>\<open>PackageLoader\<close> (lines 70-73).
\<close>

record 'w Package =
  pk_Name :: string
  pk_Version :: "SemVer option"
  pk_ResolveResource :: "string \<Rightarrow> 'w \<Rightarrow> (error + string) \<times> 'w"
  pk_ResolveFunction :: "string \<Rightarrow> 'w \<Rightarrow> (error + string) \<times> 'w"

type_synonym 'w PackageLoader = "PackageDescriptor \<Rightarrow> 'w \<Rightarrow> (error + 'w Package) \<times> 'w"

subsection \<open>The token canonicalizer: \<^verbatim>\<open>resolveToken\<close>\<close>

text \<open>
  \<^verbatim>\<open>strcase.ToLowerCamel\<close> belongs to a library the file imports; it is a parameter of
  everything that calls it.

  The last block of \<^verbatim>\<open>resolveToken\<close> (lines 388-400), on the \<^verbatim>\<open>typeParts\<close> that
  reach it.
\<close>

definition resolveToken_repeatedSection ::
  "(string \<Rightarrow> string) \<Rightarrow> string list \<Rightarrow> (string \<Rightarrow> 'w \<Rightarrow> (string \<times> bool \<times> error option) \<times> 'w)
     \<Rightarrow> 'w \<Rightarrow> (string \<times> bool \<times> error option) \<times> 'w" where
  "resolveToken_repeatedSection ToLowerCamel typeParts resolve w =
     (if length typeParts = 3 then
        (let repeatedSection = ToLowerCamel (typeParts ! 2);
             alternateName = typeParts ! 0 @ '':'' @ typeParts ! 1 @ ''/'' @ repeatedSection
                               @ '':'' @ typeParts ! 2
         in case resolve alternateName w of
              ((token, found, err), w') \<Rightarrow>
                if found then ((token, True, None), w')
                else if err \<noteq> None then (([], False, err), w')
                else (([], False, None), w'))
      else (([], False, None), w))"

text \<open>\<^verbatim>\<open>resolveToken\<close> (lines 363-401).\<close>

definition resolveToken ::
  "(string \<Rightarrow> string) \<Rightarrow> string \<Rightarrow> (string \<Rightarrow> 'w \<Rightarrow> (string \<times> bool \<times> error option) \<times> 'w)
     \<Rightarrow> 'w \<Rightarrow> (string \<times> bool \<times> error option) \<times> 'w" where
  "resolveToken ToLowerCamel typeName resolve w =
     (let typeParts = strings_Split typeName CHR '':'' in
      if length typeParts < 2 \<or> length typeParts > 3
      then (([], False, Some (InvalidTypeToken typeName)), w)
      else case resolve typeName w of
             ((token, found, err), w1) \<Rightarrow>
               if found then ((token, True, None), w1)
               else if err \<noteq> None then (([], False, err), w1)
               else if length typeParts = 2 then
                 (let alternateName = typeParts ! 0 @ '':index:'' @ typeParts ! 1 in
                  case resolve alternateName w1 of
                    ((token, found, err), w2) \<Rightarrow>
                      if found then ((token, True, None), w2)
                      else if err \<noteq> None then (([], False, err), w2)
                      else resolveToken_repeatedSection ToLowerCamel
                             [typeParts ! 0, ''index'', typeParts ! 1] resolve w2)
               else resolveToken_repeatedSection ToLowerCamel typeParts resolve w1)"

subsection \<open>The package \<^verbatim>\<open>resourcePackage\<close>\<close>

text \<open>\<^verbatim>\<open>resourcePackage.resolveProvider\<close> (lines 351-361).\<close>

definition resourcePackage_resolveProvider :: "'w PackageReference \<Rightarrow> string \<Rightarrow> string \<times> bool" where
  "resourcePackage_resolveProvider p typeName =
     (let typeParts = strings_Split typeName CHR '':'' in
      if length typeParts = 3 \<and> typeParts ! 0 = ''pulumi'' \<and> typeParts ! 1 = ''providers''
         \<and> typeParts ! 2 = pr_Name p
      then (typeName, True)
      else ([], False))"

text \<open>The function literals handed to \<^verbatim>\<open>resolveToken\<close> (lines 408-415 and 432-439).\<close>

definition resourceLookup ::
  "'w PackageReference \<Rightarrow> string \<Rightarrow> 'w \<Rightarrow> (string \<times> bool \<times> error option) \<times> 'w" where
  "resourceLookup p tk w =
     (case pr_Resources_Get p tk w of
        ((res, found, err), w') \<Rightarrow>
          if found then ((rc_Token res, True, None), w')
          else if err \<noteq> None then (([], False, err), w')
          else (([], False, None), w'))"

definition functionLookup ::
  "'w PackageReference \<Rightarrow> string \<Rightarrow> 'w \<Rightarrow> (string \<times> bool \<times> error option) \<times> 'w" where
  "functionLookup p tk w =
     (case pr_Functions_Get p tk w of
        ((fn, found, err), w') \<Rightarrow>
          if found then ((fn_Token fn, True, None), w')
          else if err \<noteq> None then (([], False, err), w')
          else (([], False, None), w'))"

text \<open>\<^verbatim>\<open>resourcePackage.ResolveResource\<close> (lines 403-424).\<close>

definition resourcePackage_ResolveResource ::
  "(string \<Rightarrow> string) \<Rightarrow> 'w PackageReference \<Rightarrow> string \<Rightarrow> 'w \<Rightarrow> (error + string) \<times> 'w" where
  "resourcePackage_ResolveResource ToLowerCamel p typeName w =
     (case resourcePackage_resolveProvider p typeName of
        (tk, ok) \<Rightarrow>
          if ok then (Inr tk, w)
          else case resolveToken ToLowerCamel typeName (resourceLookup p) w of
                 ((tk, ok, err), w') \<Rightarrow>
                   (case err of
                      Some e \<Rightarrow> (Inl e, w')
                    | None \<Rightarrow>
                        if \<not> ok then (Inl (UnableToFindResourceType typeName (pr_Name p)), w')
                        else (Inr tk, w')))"

text \<open>\<^verbatim>\<open>resourcePackage.ResolveFunction\<close> (lines 426-448).\<close>

definition resourcePackage_ResolveFunction ::
  "(string \<Rightarrow> string) \<Rightarrow> 'w PackageReference \<Rightarrow> string \<Rightarrow> 'w \<Rightarrow> (error + string) \<times> 'w" where
  "resourcePackage_ResolveFunction ToLowerCamel p typeName w =
     (let typeParts = strings_Split typeName CHR '':'' in
      if length typeParts < 2 \<or> length typeParts > 3 then (Inl (InvalidTypeToken typeName), w)
      else case resolveToken ToLowerCamel typeName (functionLookup p) w of
             ((tk, ok, err), w') \<Rightarrow>
               (case err of
                  Some e \<Rightarrow> (Inl e, w')
                | None \<Rightarrow>
                    if \<not> ok then (Inl (UnableToFindFunction typeName (pr_Name p)), w')
                    else (Inr tk, w')))"

text \<open>
  \<^verbatim>\<open>NewResourcePackage\<close> (lines 347-349): a package reference seen through the
  interface \<^verbatim>\<open>Package\<close>.
\<close>

definition NewResourcePackage :: "(string \<Rightarrow> string) \<Rightarrow> 'w PackageReference \<Rightarrow> 'w Package" where
  "NewResourcePackage ToLowerCamel pkg =
     \<lparr>pk_Name = pr_Name pkg,
      pk_Version = pr_Version pkg,
      pk_ResolveResource = resourcePackage_ResolveResource ToLowerCamel pkg,
      pk_ResolveFunction = resourcePackage_ResolveFunction ToLowerCamel pkg\<rparr>"

subsection \<open>Loading a package: \<^verbatim>\<open>loadPackage\<close>\<close>

text \<open>
  The descriptor map holds pointers: \<^verbatim>\<open>map[tokens.Package]*schema.PackageDescriptor\<close>.
  The descriptors live in a store, a function from addresses to descriptors; the map gives the
  address of a package's descriptor, \<open>None\<close> for a key that is absent or bound to nil. What
  the caller sees of its map after a call is the map and the store the call returns.
\<close>

type_synonym addr = nat
type_synonym store = "addr \<Rightarrow> PackageDescriptor"

text \<open>The handling of the loader's answer (lines 259-266).\<close>

definition loadResult :: "string \<Rightarrow> error + 'w Package \<Rightarrow> error + 'w Package" where
  "loadResult packageName r =
     (case r of
        Inl err \<Rightarrow>
          if errors_Is err ErrGetSchemaNotImplemented
          then Inl (ErrorLoadingSchema packageName err)
          else Inl (InternalErrorLoadingPackage packageName err)
      | Inr pkg \<Rightarrow> Inr pkg)"

text \<open>
  \<^verbatim>\<open>loadPackage\<close> (lines 236-267). When the map has a descriptor for the package,
  \<^verbatim>\<open>descriptor\<close> is the pointer stored in the map, and the assignment
  \<^verbatim>\<open>descriptor.Version = version\<close> writes to the store at that address. When it has none,
  \<^verbatim>\<open>descriptor\<close> points to a new descriptor that nothing else refers to.
\<close>

definition loadPackage ::
  "'w PackageLoader \<Rightarrow> (string \<Rightarrow> addr option) \<Rightarrow> string \<Rightarrow> SemVer option \<Rightarrow> store \<Rightarrow> 'w
     \<Rightarrow> (error + 'w Package) \<times> store \<times> 'w" where
  "loadPackage loader descriptors typeString version h w =
     (let typeParts = strings_Split typeString CHR '':'' in
      if length typeParts < 2 \<or> length typeParts > 3
      then (Inl (InvalidTypeToken typeString), h, w)
      else
        let packageName = ResolvePkgName typeString in
        case descriptors packageName of
          None \<Rightarrow>
            (let descriptor = \<lparr>ds_Name = packageName, ds_Version = version,
                               ds_DownloadURL = [], ds_Parameterization = None\<rparr>;
                 descriptor1 = (if version \<noteq> None then descriptor\<lparr>ds_Version := version\<rparr>
                                else descriptor)
             in case loader descriptor1 w of
                  (r, w') \<Rightarrow> (loadResult packageName r, h, w'))
        | Some a \<Rightarrow>
            (let h1 = (if version \<noteq> None then h(a := (h a)\<lparr>ds_Version := version\<rparr>) else h)
             in case loader (h1 a) w of
                  (r, w') \<Rightarrow> (loadResult packageName r, h1, w')))"

subsection \<open>The compatibility gate and the top-level resolution\<close>

text \<open>The tables of lines 270-287.\<close>

definition docker3ResourceNames :: "string list" where
  "docker3ResourceNames = [''docker:image:Image'', ''docker:Image'']"

definition kubernetesResourceNames :: "(string \<times> string) list" where
  "kubernetesResourceNames =
     [(''kubernetes:kustomize:Directory'', ''https://github.com/pulumi/pulumi-kubernetes/issues/1971''),
      (''kubernetes:yaml:ConfigFile'', ''https://github.com/pulumi/pulumi-kubernetes/issues/1971''),
      (''kubernetes:yaml:ConfigGroup'', ''https://github.com/pulumi/pulumi-kubernetes/issues/1971'')]"

definition helmResourceNames :: "string list" where
  "helmResourceNames = [''kubernetes:helm.sh/v2:Chart'', ''kubernetes:helm.sh/v3:Chart'']"

text \<open>\<^verbatim>\<open>ResolveResource\<close> (lines 292-323).\<close>

definition ResolveResource ::
  "'w PackageLoader \<Rightarrow> (string \<Rightarrow> addr option) \<Rightarrow> string \<Rightarrow> SemVer option \<Rightarrow> store \<Rightarrow> 'w
     \<Rightarrow> (error + 'w Package \<times> string) outcome \<times> store \<times> 'w" where
  "ResolveResource loader descriptors typeString version h w =
     (case map_of kubernetesResourceNames typeString of
        Some issue \<Rightarrow> (Return (Inl (ResourceTypeNotSupported typeString issue)), h, w)
      | None \<Rightarrow>
          (if List.member helmResourceNames typeString
           then (Return (Inl HelmChartNotSupported), h, w)
           else (case loadPackage loader descriptors typeString version h w of
                   (Inl err, h1, w1) \<Rightarrow> (Return (Inl err), h1, w1)
                 | (Inr pkg, h1, w1) \<Rightarrow>
                     (if List.member docker3ResourceNames typeString
                         \<and> (case pk_Version pkg of None \<Rightarrow> True | Some v \<Rightarrow> sv_Major v \<le> 3)
                      then (if (case version of None \<Rightarrow> True | Some v \<Rightarrow> sv_Major v \<le> 3)
                            then (Return (Inl DockerImageNotSupported), h1, w1)
                            else (Panic, h1, w1))
                      else (case pk_ResolveResource pkg typeString w1 of
                              (Inl err, w2) \<Rightarrow> (Return (Inl err), h1, w2)
                            | (Inr canonicalName, w2) \<Rightarrow>
                                (Return (Inr (pkg, canonicalName)), h1, w2))))))"

text \<open>\<^verbatim>\<open>ResolveFunction\<close> (lines 328-341).\<close>

definition ResolveFunction ::
  "'w PackageLoader \<Rightarrow> (string \<Rightarrow> addr option) \<Rightarrow> string \<Rightarrow> SemVer option \<Rightarrow> store \<Rightarrow> 'w
     \<Rightarrow> (error + 'w Package \<times> string) \<times> store \<times> 'w" where
  "ResolveFunction loader descriptors typeString version h w =
     (case loadPackage loader descriptors typeString version h w of
        (Inl err, h1, w1) \<Rightarrow> (Inl err, h1, w1)
      | (Inr pkg, h1, w1) \<Rightarrow>
          (case pk_ResolveFunction pkg typeString w1 of
             (Inl err, w2) \<Rightarrow> (Inl err, h1, w2)
           | (Inr canonicalName, w2) \<Rightarrow> (Inr (pkg, canonicalName), h1, w2)))"

subsection \<open>The candidate order, in the words of the specification\<close>

text \<open>
  The candidates of a user token, in the order the specification gives them: the token as
  given; for a two-segment token \<open>A:B\<close> the form \<open>A:index:B\<close>; for the resulting three-segment
  token \<open>A:B:C\<close> the legacy form \<open>A:B/c:C\<close>, \<open>c\<close> the lower-camel-cased \<open>C\<close>.
\<close>

definition candidates :: "(string \<Rightarrow> string) \<Rightarrow> string \<Rightarrow> string list" where
  "candidates ToLowerCamel userToken =
     (case strings_Split userToken CHR '':'' of
        [a, b] \<Rightarrow> [userToken, a @ '':index:'' @ b, a @ '':index/'' @ ToLowerCamel b @ '':'' @ b]
      | [a, b, c] \<Rightarrow> [userToken, a @ '':'' @ b @ ''/'' @ ToLowerCamel c @ '':'' @ c]
      | _ \<Rightarrow> [])"

text \<open>
  Trying candidates in order: the first one the lookup reports found is returned; a lookup
  that fails without finding ends the search with its error; when none is found and no lookup
  failed, the answer is not-found.
\<close>

fun firstFound ::
  "(string \<Rightarrow> 'w \<Rightarrow> (string \<times> bool \<times> error option) \<times> 'w) \<Rightarrow> string list \<Rightarrow> 'w
     \<Rightarrow> (string \<times> bool \<times> error option) \<times> 'w" where
  "firstFound lookup [] w = (([], False, None), w)"
| "firstFound lookup (c # cs) w =
     (case lookup c w of
        ((token, found, err), w') \<Rightarrow>
          if found then ((token, True, None), w')
          else if err \<noteq> None then (([], False, err), w')
          else firstFound lookup cs w')"

text \<open>A version that is unknown or has a major version of at most 3.\<close>

definition versionAtMost3 :: "SemVer option \<Rightarrow> bool" where
  "versionAtMost3 v = (case v of None \<Rightarrow> True | Some x \<Rightarrow> sv_Major x \<le> 3)"

subsection \<open>Concrete packages, loaders and descriptor maps\<close>

text \<open>
  The inputs of the examples. The world is the list of the calls made to the collaborators, in
  order: a table records the token it is asked for, a loader the name of the descriptor it is
  handed.
\<close>

text \<open>The values of \<^verbatim>\<open>strcase.ToLowerCamel\<close> on the words of the examples.\<close>

definition ex_ToLowerCamel :: "string \<Rightarrow> string" where
  "ex_ToLowerCamel s =
     (if s = ''Bucket'' then ''bucket'' else if s = ''Image'' then ''image'' else s)"

definition ex_Resources_Get ::
  "string list \<Rightarrow> string \<Rightarrow> string list \<Rightarrow> (Resource \<times> bool \<times> error option) \<times> string list" where
  "ex_Resources_Get table tk w =
     ((\<lparr>rc_Token = tk, rc_IsComponent = False\<rparr>, List.member table tk, None), w @ [tk])"

definition ex_Functions_Get ::
  "string list \<Rightarrow> string \<Rightarrow> string list \<Rightarrow> (Function \<times> bool \<times> error option) \<times> string list" where
  "ex_Functions_Get table tk w = ((\<lparr>fn_Token = tk\<rparr>, List.member table tk, None), w @ [tk])"

definition ex_lookup ::
  "string \<Rightarrow> string list \<Rightarrow> (string \<times> bool \<times> error option) \<times> string list" where
  "ex_lookup tk w = ((tk, tk = ''aws:s3/bucket:Bucket'', None), w @ [tk])"

definition ex_version :: "nat \<Rightarrow> SemVer" where
  "ex_version major = \<lparr>sv_Major = major, sv_Minor = 0, sv_Patch = 0\<rparr>"

definition ex_aws :: "string list PackageReference" where
  "ex_aws =
     \<lparr>pr_Name = ''aws'', pr_Version = Some (ex_version 6),
      pr_Resources_Get = ex_Resources_Get [''aws:s3/bucket:Bucket''],
      pr_Functions_Get = ex_Functions_Get [''aws:index/getAmi:getAmi'']\<rparr>"

definition ex_docker :: "SemVer option \<Rightarrow> string list PackageReference" where
  "ex_docker v =
     \<lparr>pr_Name = ''docker'', pr_Version = v,
      pr_Resources_Get = ex_Resources_Get [''docker:index/image:Image''],
      pr_Functions_Get = ex_Functions_Get []\<rparr>"

text \<open>A loader that answers every descriptor with the package it is built from.\<close>

definition ex_loader :: "string list PackageReference \<Rightarrow> string list PackageLoader" where
  "ex_loader pkg descriptor w =
     (Inr (NewResourcePackage ex_ToLowerCamel pkg), w @ [ds_Name descriptor])"

text \<open>A descriptor map binding \<open>aws\<close> to the descriptor at address 0, of version 5.0.0.\<close>

definition ex_descriptors :: "string \<Rightarrow> addr option" where
  "ex_descriptors name = (if name = ''aws'' then Some 0 else None)"

definition ex_store :: store where
  "ex_store a =
     \<lparr>ds_Name = ''aws'', ds_Version = Some (ex_version 5), ds_DownloadURL = [],
      ds_Parameterization = None\<rparr>"

subsection \<open>The order of the output and the entries of the map, in the words of the specification\<close>

text \<open>
  The effective name of a declaration: the name of its parameterization when it has one, its
  own name otherwise.
\<close>

definition effectiveName :: "PackageDecl \<Rightarrow> string" where
  "effectiveName pkg =
     (case pd_Parameterization pkg of None \<Rightarrow> pd_Name pkg | Some p \<Rightarrow> pz_Name p)"

text \<open>
  The sort key of the specification, as the relation "comes before": name ascending; then
  version ascending, on the version strings; then, when both declarations lack a
  parameterization, download URL ascending; otherwise a declaration without a parameterization
  before one with a parameterization; otherwise parameterization name ascending, then
  parameterization version ascending.
\<close>

definition specBefore :: "PackageDecl \<Rightarrow> PackageDecl \<Rightarrow> bool" where
  "specBefore a b =
     (pd_Name a < pd_Name b
      \<or> (pd_Name a = pd_Name b
          \<and> (pd_Version a < pd_Version b
              \<or> (pd_Version a = pd_Version b
                  \<and> (case (pd_Parameterization a, pd_Parameterization b) of
                        (None, None) \<Rightarrow> pd_DownloadURL a < pd_DownloadURL b
                      | (None, Some zb) \<Rightarrow> True
                      | (Some za, None) \<Rightarrow> False
                      | (Some za, Some zb) \<Rightarrow>
                          pz_Name za < pz_Name zb
                          \<or> (pz_Name za = pz_Name zb \<and> pz_Version za < pz_Version zb))))))"

text \<open>The same key as a tuple under the lexicographic order, for the proofs.\<close>

definition sortKey :: "PackageDecl \<Rightarrow> string \<times> string \<times> bool \<times> string \<times> string" where
  "sortKey d =
     (pd_Name d, pd_Version d,
      (case pd_Parameterization d of
         None \<Rightarrow> (False, pd_DownloadURL d, [])
       | Some z \<Rightarrow> (True, pz_Name z, pz_Version z)))"

text \<open>
  The invariant of the package map: the keys are distinct, and every declaration is stored
  under its effective name.
\<close>

definition wfMap :: "PackageMap \<Rightarrow> bool" where
  "wfMap m = (distinct (map fst m) \<and> list_all (\<lambda>(k, d). k = effectiveName d) m)"

text \<open>
  The map binds the name \<open>n\<close> to an entry that has the name, the version and the
  parameterization of the declaration \<open>d\<close>.
\<close>

definition holdsFirst :: "string \<Rightarrow> PackageDecl \<Rightarrow> PackageMap \<Rightarrow> bool" where
  "holdsFirst n d m =
     (case map_of m n of
        None \<Rightarrow> False
      | Some e \<Rightarrow> pd_Name e = pd_Name d \<and> pd_Version e = pd_Version d
                  \<and> pd_Parameterization e = pd_Parameterization d)"

text \<open>
  A visit that brings no version for the package \<open>p\<close>: an expression that is not an invoke,
  a node without a type or token, a node of another package, or a node of \<open>p\<close> whose version
  option is empty.
\<close>

definition statesNoVersionFor :: "string \<Rightarrow> Visit \<Rightarrow> bool" where
  "statesNoVersionFor p node =
     (case node of
        VisitResource res \<Rightarrow>
          (case rs_Type res of
             None \<Rightarrow> True
           | Some ty \<Rightarrow> ResolvePkgName (se_Value ty) \<noteq> p \<or> GetValue (rs_Version res) = [])
      | VisitExpr (Invoke expr) \<Rightarrow>
          (case iv_Token expr of
             None \<Rightarrow> True
           | Some tk \<Rightarrow> ResolvePkgName (se_Value tk) \<noteq> p \<or> GetValue (iv_Version expr) = [])
      | VisitExpr OtherExpr \<Rightarrow> True)"

text \<open>A conflicting-version diagnostic that names the package \<open>p\<close>.\<close>

definition isVersionConflictOf :: "string \<Rightarrow> Diagnostic \<Rightarrow> bool" where
  "isVersionConflictOf p d =
     (case dg_Summary d of ConflictingVersion q v \<Rightarrow> q = p | _ \<Rightarrow> False)"

text \<open>
  The version the package map holds for the name \<open>p\<close>; empty when the map has no entry for
  \<open>p\<close> or the entry has no version yet.
\<close>

definition versionOf :: "string \<Rightarrow> PackageMap \<Rightarrow> string" where
  "versionOf p m = (case map_of m p of None \<Rightarrow> [] | Some e \<Rightarrow> pd_Version e)"

subsection \<open>Concrete templates\<close>

text \<open>
  A resource with a type and, unless the version given is empty, a version; its syntax nodes
  are numbered from \<open>node\<close>: the resource, then its type, then its version.
\<close>

definition ex_resource :: "string \<Rightarrow> nat \<Rightarrow> string \<Rightarrow> string \<Rightarrow> ResourceDecl" where
  "ex_resource key node ty version =
     \<lparr>rs_Key = key, rs_Syntax = node,
      rs_Type = Some \<lparr>se_Value = ty, se_Syntax = node + 1\<rparr>,
      rs_Version = (if version = [] then None
                    else Some \<lparr>se_Value = version, se_Syntax = node + 2\<rparr>),
      rs_PluginDownloadURL = None\<rparr>"

definition ex_package :: "string \<Rightarrow> string \<Rightarrow> PackageDecl" where
  "ex_package name version =
     \<lparr>pd_Name = name, pd_Version = version, pd_DownloadURL = [], pd_Parameterization = None\<rparr>"

definition ex_parameterized :: "string \<Rightarrow> string \<Rightarrow> string \<Rightarrow> string \<Rightarrow> PackageDecl" where
  "ex_parameterized name version zname zversion =
     \<lparr>pd_Name = name, pd_Version = version, pd_DownloadURL = [],
      pd_Parameterization = Some \<lparr>pz_Name = zname, pz_Version = zversion\<rparr>\<rparr>"

text \<open>
  Scenario S2 of the specification: two resources of the package \<open>aws\<close>, of versions 6.0.0
  and 6.1.0, and no packages section.
\<close>

definition ex_S2 :: TemplateDecl where
  "ex_S2 =
     \<lparr>tm_Packages = [],
      tm_Walk = [VisitResource (ex_resource ''bucket'' 10 ''aws:s3:Bucket'' ''6.0.0''),
                 VisitResource (ex_resource ''instance'' 20 ''aws:ec2:Instance'' ''6.1.0'')]\<rparr>"

text \<open>
  Scenario S2 inside a larger template: the packages section declares \<open>gcp\<close>, and the walk
  visits, besides the two resources of \<open>aws\<close>, expressions that are not invokes and a resource
  of \<open>gcp\<close>.
\<close>

definition ex_S2_walk :: TemplateDecl where
  "ex_S2_walk =
     \<lparr>tm_Packages = [ex_package ''gcp'' ''7.0.0''],
      tm_Walk = [VisitResource (ex_resource ''bucket'' 10 ''aws:s3:Bucket'' ''6.0.0''),
                 VisitExpr OtherExpr,
                 VisitResource (ex_resource ''disk'' 30 ''gcp:compute:Disk'' ''7.0.0''),
                 VisitResource (ex_resource ''instance'' 20 ''aws:ec2:Instance'' ''6.1.0''),
                 VisitExpr OtherExpr]\<rparr>"

text \<open>
  Templates whose packages section declares a name twice, with differing versions: with a
  resource that states no version; with a resource that has no type; declaring the built-in
  package; and with parameterized declarations whose own version is empty.
\<close>

definition ex_duplicate :: TemplateDecl where
  "ex_duplicate =
     \<lparr>tm_Packages = [ex_package ''aws'' ''6.0.0'', ex_package ''aws'' ''6.1.0''],
      tm_Walk = [VisitResource (ex_resource ''bucket'' 10 ''aws:s3:Bucket'' [])]\<rparr>"

definition ex_duplicate_untyped :: TemplateDecl where
  "ex_duplicate_untyped =
     \<lparr>tm_Packages = [ex_package ''aws'' ''6.0.0'', ex_package ''aws'' ''6.1.0''],
      tm_Walk = [VisitResource ((ex_resource ''bucket'' 10 [] [])\<lparr>rs_Type := None\<rparr>)]\<rparr>"

definition ex_duplicate_pulumi :: TemplateDecl where
  "ex_duplicate_pulumi =
     \<lparr>tm_Packages = [ex_package ''pulumi'' ''1.0.0'', ex_package ''pulumi'' ''2.0.0''],
      tm_Walk = []\<rparr>"

definition ex_duplicate_parameterized :: TemplateDecl where
  "ex_duplicate_parameterized =
     \<lparr>tm_Packages = [ex_parameterized ''terraform-provider'' [] ''random'' ''1.0.0'',
                      ex_parameterized ''terraform-provider'' [] ''random'' ''2.0.0''],
      tm_Walk = []\<rparr>"

text \<open>Two parameterized packages of one plugin, of versions 9.0.0 and 10.0.0.\<close>

definition ex_versions :: TemplateDecl where
  "ex_versions =
     \<lparr>tm_Packages = [ex_parameterized ''terraform-provider'' ''9.0.0'' ''random'' ''1.0.0'',
                      ex_parameterized ''terraform-provider'' ''10.0.0'' ''tls'' ''1.0.0''],
      tm_Walk = []\<rparr>"

section \<open>Properties\<close>

subsection \<open>Splitting a token\<close>

lemma strings_Split_not_Nil: "strings_Split s sep \<noteq> []"
  by (induction s) (auto split: list.splits)

lemma strings_Split_no_sep: "sep \<notin> set s \<Longrightarrow> strings_Split s sep = [s]"
  by (induction s) auto

lemma strings_Split_append:
  "sep \<notin> set a \<Longrightarrow> strings_Split (a @ sep # rest) sep = a # strings_Split rest sep"
  by (induction a) auto

lemma length_strings_Split: "length (strings_Split s sep) = Suc (count_list s sep)"
  by (induction s) (auto split: list.splits simp: strings_Split_not_Nil)

lemma strings_Split_single:
  assumes "length (strings_Split s sep) = 1"
  shows "strings_Split s sep = [s]"
proof -
  from assms have "count_list s sep = 0" by (simp add: length_strings_Split)
  then have "sep \<notin> set s" by (simp add: count_list_0_iff)
  then show ?thesis by (rule strings_Split_no_sep)
qed

lemma strings_Split_provider:
  "strings_Split (''pulumi:providers:'' @ X) CHR '':'' =
     ''pulumi'' # ''providers'' # strings_Split X CHR '':''"
  using strings_Split_append [of "CHR '':''" "''pulumi''" "''providers:'' @ X"]
    strings_Split_append [of "CHR '':''" "''providers''" X]
  by simp

lemma length2E: "length xs = 2 \<Longrightarrow> \<exists>a b. xs = [a, b]"
  by (cases xs; cases "tl xs") auto

lemma length3E: "length xs = 3 \<Longrightarrow> \<exists>a b c. xs = [a, b, c]"
  by (cases xs; cases "tl xs"; cases "tl (tl xs)") auto

subsection \<open>The token canonicalizer\<close>

text \<open>
  Claim C3. For every user token with two or three segments and every lookup, whatever the
  lookup does to the world, \<^const>\<open>resolveToken\<close> is the search through the candidates of the
  token in the order of the specification: the token as given, then for \<open>A:B\<close> the form
  \<open>A:index:B\<close>, then for the three-segment token the legacy form \<open>A:B/c:C\<close>. It returns the
  token of the first candidate the lookup reports found, the error of a lookup that fails
  without finding, and not-found when every lookup says not found without an error. The
  lookups are made in this order and no other is made, since each takes the world the
  previous one left.
\<close>

theorem resolveToken_candidate_order:
  assumes "length (strings_Split userToken CHR '':'') = 2
           \<or> length (strings_Split userToken CHR '':'') = 3"
  shows "resolveToken ToLowerCamel userToken lookup w =
           firstFound lookup (candidates ToLowerCamel userToken) w"
  using assms
proof
  assume "length (strings_Split userToken CHR '':'') = 2"
  then obtain a b where ab: "strings_Split userToken CHR '':'' = [a, b]"
    using length2E by blast
  show ?thesis
    by (simp add: resolveToken_def resolveToken_repeatedSection_def candidates_def ab
          split: prod.splits)
next
  assume "length (strings_Split userToken CHR '':'') = 3"
  then obtain a b c where abc: "strings_Split userToken CHR '':'' = [a, b, c]"
    using length3E by blast
  show ?thesis
    by (simp add: resolveToken_def resolveToken_repeatedSection_def candidates_def abc
          split: prod.splits)
qed

theorem resolveToken_candidate_order_witness:
  "(length (strings_Split ''aws:s3:Bucket'' CHR '':'') = 2
      \<or> length (strings_Split ''aws:s3:Bucket'' CHR '':'') = 3)
   \<and> resolveToken ex_ToLowerCamel ''aws:s3:Bucket'' ex_lookup []
       = firstFound ex_lookup (candidates ex_ToLowerCamel ''aws:s3:Bucket'') []
   \<and> firstFound ex_lookup (candidates ex_ToLowerCamel ''aws:s3:Bucket'') []
       = ((''aws:s3/bucket:Bucket'', True, None), [''aws:s3:Bucket'', ''aws:s3/bucket:Bucket''])"
  using resolveToken_candidate_order [of "''aws:s3:Bucket''" ex_ToLowerCamel ex_lookup "[]"]
  by (simp add: candidates_def ex_lookup_def ex_ToLowerCamel_def)

text \<open>
  Claim C4. Canonicalization is idempotent. Let \<open>t\<close> be a type token (two or three segments).
  If the resource table of the package has, under \<open>t\<close>, an entry whose token is \<open>t\<close>, then
  \<^verbatim>\<open>ResolveResource\<close> of the package returns \<open>t\<close> without error; and if the function
  table has, under \<open>t\<close>, an entry whose token is \<open>t\<close>, then \<^verbatim>\<open>ResolveFunction\<close> returns
  \<open>t\<close>.
\<close>

theorem canonical_token_idempotent:
  assumes "length (strings_Split t CHR '':'') = 2 \<or> length (strings_Split t CHR '':'') = 3"
  shows "(pr_Resources_Get p t w = ((res, True, err), w') \<and> rc_Token res = t
            \<longrightarrow> fst (resourcePackage_ResolveResource ToLowerCamel p t w) = Inr t)
       \<and> (pr_Functions_Get p t w = ((fn, True, err), w') \<and> fn_Token fn = t
            \<longrightarrow> fst (resourcePackage_ResolveFunction ToLowerCamel p t w) = Inr t)"
  using assms
  by (auto simp: resourcePackage_ResolveResource_def resourcePackage_ResolveFunction_def
        resourcePackage_resolveProvider_def resolveToken_def resourceLookup_def
        functionLookup_def Let_def)

theorem canonical_token_idempotent_witness:
  "length (strings_Split ''aws:s3/bucket:Bucket'' CHR '':'') = 3
   \<and> pr_Resources_Get ex_aws ''aws:s3/bucket:Bucket'' []
       = ((\<lparr>rc_Token = ''aws:s3/bucket:Bucket'', rc_IsComponent = False\<rparr>, True, None),
          [''aws:s3/bucket:Bucket''])
   \<and> fst (resourcePackage_ResolveResource ex_ToLowerCamel ex_aws ''aws:s3/bucket:Bucket'' [])
       = Inr ''aws:s3/bucket:Bucket''
   \<and> length (strings_Split ''aws:index/getAmi:getAmi'' CHR '':'') = 3
   \<and> pr_Functions_Get ex_aws ''aws:index/getAmi:getAmi'' []
       = ((\<lparr>fn_Token = ''aws:index/getAmi:getAmi''\<rparr>, True, None), [''aws:index/getAmi:getAmi''])
   \<and> fst (resourcePackage_ResolveFunction ex_ToLowerCamel ex_aws ''aws:index/getAmi:getAmi'' [])
       = Inr ''aws:index/getAmi:getAmi''"
  using canonical_token_idempotent [where t = "''aws:s3/bucket:Bucket''" and p = ex_aws
      and w = "[]" and res = "\<lparr>rc_Token = ''aws:s3/bucket:Bucket'', rc_IsComponent = False\<rparr>"
      and err = None and w' = "[''aws:s3/bucket:Bucket'']" and ToLowerCamel = ex_ToLowerCamel]
    canonical_token_idempotent [where t = "''aws:index/getAmi:getAmi''" and p = ex_aws
      and w = "[]" and fn = "\<lparr>fn_Token = ''aws:index/getAmi:getAmi''\<rparr>"
      and err = None and w' = "[''aws:index/getAmi:getAmi'']" and ToLowerCamel = ex_ToLowerCamel]
  by (simp add: ex_aws_def ex_Resources_Get_def ex_Functions_Get_def)

text \<open>
  Claim C6. For a package named \<open>p\<close> (a token segment: it holds no colon),
  \<^verbatim>\<open>ResolveResource\<close> of the package on \<open>pulumi:providers:p\<close> returns that token and leaves
  the world as it was, whatever the tables are: no table is consulted. For every \<open>X\<close> other
  than \<open>p\<close> the token \<open>pulumi:providers:X\<close> does not take the shortcut:
  \<^verbatim>\<open>resolveProvider\<close> declines it, and \<^verbatim>\<open>ResolveResource\<close> of the package answers
  as \<^verbatim>\<open>resolveToken\<close> does on the resource table, with the unknown-resource error when
  nothing is found. When \<open>X\<close> holds no colon that is the search of the resource table for
  \<open>pulumi:providers:X\<close>, then for its legacy form.
\<close>

theorem provider_shortcut:
  "(CHR '':'' \<notin> set (pr_Name p)
      \<longrightarrow> resourcePackage_ResolveResource ToLowerCamel p (''pulumi:providers:'' @ pr_Name p) w
            = (Inr (''pulumi:providers:'' @ pr_Name p), w))
   \<and> (X \<noteq> pr_Name p
      \<longrightarrow> resourcePackage_resolveProvider p (''pulumi:providers:'' @ X) = ([], False)
          \<and> resourcePackage_ResolveResource ToLowerCamel p (''pulumi:providers:'' @ X) w
              = (case resolveToken ToLowerCamel (''pulumi:providers:'' @ X) (resourceLookup p) w of
                   ((tk, ok, err), w') \<Rightarrow>
                     (case err of
                        Some e \<Rightarrow> (Inl e, w')
                      | None \<Rightarrow>
                          if \<not> ok
                          then (Inl (UnableToFindResourceType (''pulumi:providers:'' @ X)
                                       (pr_Name p)), w')
                          else (Inr tk, w'))))
   \<and> (X \<noteq> pr_Name p \<and> CHR '':'' \<notin> set X
      \<longrightarrow> resourcePackage_ResolveResource ToLowerCamel p (''pulumi:providers:'' @ X) w
            = (case firstFound (resourceLookup p)
                      [''pulumi:providers:'' @ X,
                       ''pulumi:providers/'' @ ToLowerCamel X @ '':'' @ X] w of
                 ((tk, ok, err), w') \<Rightarrow>
                   (case err of
                      Some e \<Rightarrow> (Inl e, w')
                    | None \<Rightarrow>
                        if \<not> ok
                        then (Inl (UnableToFindResourceType (''pulumi:providers:'' @ X)
                                     (pr_Name p)), w')
                        else (Inr tk, w'))))"
proof (intro conjI impI)
  assume "CHR '':'' \<notin> set (pr_Name p)"
  then have "strings_Split (''pulumi:providers:'' @ pr_Name p) CHR '':''
               = [''pulumi'', ''providers'', pr_Name p]"
    by (simp only: strings_Split_provider) (simp add: strings_Split_no_sep)
  then show "resourcePackage_ResolveResource ToLowerCamel p (''pulumi:providers:'' @ pr_Name p) w
            = (Inr (''pulumi:providers:'' @ pr_Name p), w)"
    by (simp add: resourcePackage_ResolveResource_def resourcePackage_resolveProvider_def)
next
  assume neq: "X \<noteq> pr_Name p"
  show np: "resourcePackage_resolveProvider p (''pulumi:providers:'' @ X) = ([], False)"
  proof (cases "length (strings_Split X CHR '':'') = 1")
    case True
    then have "strings_Split X CHR '':'' = [X]" by (rule strings_Split_single)
    with neq show ?thesis
      unfolding resourcePackage_resolveProvider_def strings_Split_provider by simp
  next
    case False
    then show ?thesis
      unfolding resourcePackage_resolveProvider_def strings_Split_provider by simp
  qed
  show "resourcePackage_ResolveResource ToLowerCamel p (''pulumi:providers:'' @ X) w
              = (case resolveToken ToLowerCamel (''pulumi:providers:'' @ X) (resourceLookup p) w of
                   ((tk, ok, err), w') \<Rightarrow>
                     (case err of
                        Some e \<Rightarrow> (Inl e, w')
                      | None \<Rightarrow>
                          if \<not> ok
                          then (Inl (UnableToFindResourceType (''pulumi:providers:'' @ X)
                                       (pr_Name p)), w')
                          else (Inr tk, w')))"
    unfolding resourcePackage_ResolveResource_def np by simp
next
  assume a: "X \<noteq> pr_Name p \<and> CHR '':'' \<notin> set X"
  then have sp: "strings_Split (''pulumi:providers:'' @ X) CHR '':''
               = [''pulumi'', ''providers'', X]"
    by (simp only: strings_Split_provider) (simp add: strings_Split_no_sep)
  from a sp have np: "resourcePackage_resolveProvider p (''pulumi:providers:'' @ X) = ([], False)"
    unfolding resourcePackage_resolveProvider_def by simp
  have rt: "resolveToken ToLowerCamel (''pulumi:providers:'' @ X) (resourceLookup p) w
          = firstFound (resourceLookup p)
              [''pulumi:providers:'' @ X, ''pulumi:providers/'' @ ToLowerCamel X @ '':'' @ X] w"
    unfolding resolveToken_def resolveToken_repeatedSection_def sp
    by (simp split: prod.splits)
  show "resourcePackage_ResolveResource ToLowerCamel p (''pulumi:providers:'' @ X) w
            = (case firstFound (resourceLookup p)
                      [''pulumi:providers:'' @ X,
                       ''pulumi:providers/'' @ ToLowerCamel X @ '':'' @ X] w of
                 ((tk, ok, err), w') \<Rightarrow>
                   (case err of
                      Some e \<Rightarrow> (Inl e, w')
                    | None \<Rightarrow>
                        if \<not> ok
                        then (Inl (UnableToFindResourceType (''pulumi:providers:'' @ X)
                                     (pr_Name p)), w')
                        else (Inr tk, w')))"
    unfolding resourcePackage_ResolveResource_def np rt by simp
qed

theorem provider_shortcut_witness:
  "CHR '':'' \<notin> set (pr_Name ex_aws)
   \<and> resourcePackage_ResolveResource ex_ToLowerCamel ex_aws ''pulumi:providers:aws'' []
       = (Inr ''pulumi:providers:aws'', [])
   \<and> ''gcp'' \<noteq> pr_Name ex_aws \<and> CHR '':'' \<notin> set ''gcp''
   \<and> resourcePackage_resolveProvider ex_aws ''pulumi:providers:gcp'' = ([], False)
   \<and> resourcePackage_ResolveResource ex_ToLowerCamel ex_aws ''pulumi:providers:gcp'' []
       = (Inl (UnableToFindResourceType ''pulumi:providers:gcp'' ''aws''),
          [''pulumi:providers:gcp'', ''pulumi:providers/gcp:gcp''])"
  using provider_shortcut [of ex_aws ex_ToLowerCamel "[]" "''gcp''"]
  by (simp add: ex_aws_def resourcePackage_ResolveResource_def resourcePackage_resolveProvider_def
        resolveToken_def resolveToken_repeatedSection_def resourceLookup_def
        ex_Resources_Get_def ex_ToLowerCamel_def Let_def)

subsection \<open>Loading a package\<close>

text \<open>
  Claim C2. The claim is that a call of \<^verbatim>\<open>loadPackage\<close> with a version override leaves
  the caller's descriptor map as it was. The code writes the override through the pointer it
  read from the map: the map binds \<open>aws\<close> to the descriptor at address 0, of version 5.0.0;
  after a call for \<open>aws:s3:Bucket\<close> with the override 6.0.0 the map still binds \<open>aws\<close> to
  address 0, and the descriptor there has version 6.0.0.
\<close>

theorem loadPackage_overwrites_caller_descriptor:
  "ex_descriptors ''aws'' = Some 0
   \<and> ds_Version (ex_store 0) = Some (ex_version 5)
   \<and> ds_Version (fst (snd (loadPackage (ex_loader ex_aws) ex_descriptors ''aws:s3:Bucket''
                               (Some (ex_version 6)) ex_store [])) 0)
       = Some (ex_version 6)"
  by (simp add: loadPackage_def ex_loader_def ex_descriptors_def ex_store_def
        ResolvePkgName_def ex_version_def Let_def)

subsection \<open>The compatibility gate\<close>

text \<open>
  Claim C8. For every token of the Helm Chart set the top-level \<^verbatim>\<open>ResolveResource\<close>
  returns the error that points to the Helm Release resource, and the store and the world are
  as they were, whatever the loader: the loader is not invoked.
\<close>

theorem helm_rejected_before_load:
  "List.member helmResourceNames typeString \<Longrightarrow>
     ResolveResource loader descriptors typeString version h w
       = (Return (Inl HelmChartNotSupported), h, w)"
  by (auto simp: ResolveResource_def helmResourceNames_def kubernetesResourceNames_def)

theorem helm_rejected_before_load_witness:
  "List.member helmResourceNames ''kubernetes:helm.sh/v3:Chart''
   \<and> ResolveResource (ex_loader ex_aws) ex_descriptors ''kubernetes:helm.sh/v3:Chart'' None
         ex_store []
       = (Return (Inl HelmChartNotSupported), ex_store, [])"
  using helm_rejected_before_load [of "''kubernetes:helm.sh/v3:Chart''" "ex_loader ex_aws"
      ex_descriptors None ex_store "[]"]
  by (simp add: helmResourceNames_def)

lemma ex_loadPackage_docker:
  "loadPackage (ex_loader (ex_docker v)) ex_descriptors ''docker:Image'' version ex_store []
     = (Inr (NewResourcePackage ex_ToLowerCamel (ex_docker v)), ex_store, [''docker''])"
  by (simp add: loadPackage_def ex_loader_def ex_descriptors_def ResolvePkgName_def
        loadResult_def Let_def)

lemma ex_resolve_docker:
  "resourcePackage_ResolveResource ex_ToLowerCamel (ex_docker v) ''docker:Image'' w
     = (Inr ''docker:index/image:Image'',
        w @ [''docker:Image'', ''docker:index:Image'', ''docker:index/image:Image''])"
  by (simp add: resourcePackage_ResolveResource_def resourcePackage_resolveProvider_def
        resolveToken_def resolveToken_repeatedSection_def resourceLookup_def ex_docker_def
        ex_Resources_Get_def ex_ToLowerCamel_def Let_def)

lemma ex_docker_sel:
  "pr_Name (ex_docker v) = ''docker''" "pr_Version (ex_docker v) = v"
  by (simp_all add: ex_docker_def)

lemma ex_version_sel: "sv_Major (ex_version major) = major"
  by (simp add: ex_version_def)

text \<open>
  Claim C5, as stated, fails. The claim is that for the Docker image tokens the gate rejects
  with the Docker error exactly when the version of the loaded package is unknown or has a
  major version of at most 3. For \<open>docker:Image\<close> with the version override 4.0.0 and a loader
  whose package reports no version, the package loads, its version is unknown, and the call
  does not return the Docker error: the assertion on the override fails and the call panics.
\<close>

theorem docker_gate_counterexample:
  "List.member docker3ResourceNames ''docker:Image''
   \<and> loadPackage (ex_loader (ex_docker None)) ex_descriptors ''docker:Image''
         (Some (ex_version 4)) ex_store []
       = (Inr (NewResourcePackage ex_ToLowerCamel (ex_docker None)), ex_store, [''docker''])
   \<and> pk_Version (NewResourcePackage ex_ToLowerCamel (ex_docker None)) = None
   \<and> ResolveResource (ex_loader (ex_docker None)) ex_descriptors ''docker:Image''
         (Some (ex_version 4)) ex_store []
       = (Panic, ex_store, [''docker''])"
  by (simp add: ResolveResource_def ex_loadPackage_docker kubernetesResourceNames_def
        helmResourceNames_def docker3ResourceNames_def NewResourcePackage_def ex_docker_sel
        ex_version_sel)

text \<open>
  Claim C5, amended. For a Docker image token whose package has loaded:
  \<^item> when the version of the loaded package is unknown or has a major version of at most 3
    and the version override is absent or has a major version of at most 3, the top-level
    \<^verbatim>\<open>ResolveResource\<close> rejects with the Docker error;
  \<^item> when the version of the loaded package is unknown or has a major version of at most 3
    and the override has a major version of 4 or more, the assertion fails and the call
    panics, so a rejection with the Docker error never comes with a failed assertion;
  \<^item> when the loaded package has a major version of 4 or more, the gate does not reject and
    the result is that of the package's \<^verbatim>\<open>ResolveResource\<close>.
\<close>

theorem docker_gate:
  assumes "List.member docker3ResourceNames typeString"
    and "loadPackage loader descriptors typeString version h w = (Inr pkg, h1, w1)"
  shows "(versionAtMost3 (pk_Version pkg) \<and> versionAtMost3 version
            \<longrightarrow> ResolveResource loader descriptors typeString version h w
                  = (Return (Inl DockerImageNotSupported), h1, w1))
       \<and> (versionAtMost3 (pk_Version pkg) \<and> \<not> versionAtMost3 version
            \<longrightarrow> ResolveResource loader descriptors typeString version h w = (Panic, h1, w1))
       \<and> (\<not> versionAtMost3 (pk_Version pkg)
            \<longrightarrow> ResolveResource loader descriptors typeString version h w
                  = (case pk_ResolveResource pkg typeString w1 of
                       (Inl err, w2) \<Rightarrow> (Return (Inl err), h1, w2)
                     | (Inr canonicalName, w2) \<Rightarrow> (Return (Inr (pkg, canonicalName)), h1, w2)))"
proof -
  from assms(1) have "typeString = ''docker:image:Image'' \<or> typeString = ''docker:Image''"
    by (simp add: docker3ResourceNames_def)
  then have k: "map_of kubernetesResourceNames typeString = None"
    and hm: "typeString \<notin> set helmResourceNames"
    by (auto simp: kubernetesResourceNames_def helmResourceNames_def)
  show ?thesis
    using assms
    by (simp add: ResolveResource_def k hm versionAtMost3_def)
qed

theorem docker_gate_witness:
  "List.member docker3ResourceNames ''docker:Image''
   \<and> versionAtMost3 (Some (ex_version 3)) \<and> versionAtMost3 None
   \<and> \<not> versionAtMost3 (Some (ex_version 4))
   \<and> ResolveResource (ex_loader (ex_docker (Some (ex_version 3)))) ex_descriptors
         ''docker:Image'' None ex_store []
       = (Return (Inl DockerImageNotSupported), ex_store, [''docker''])
   \<and> ResolveResource (ex_loader (ex_docker (Some (ex_version 3)))) ex_descriptors
         ''docker:Image'' (Some (ex_version 4)) ex_store []
       = (Panic, ex_store, [''docker''])
   \<and> ResolveResource (ex_loader (ex_docker (Some (ex_version 4)))) ex_descriptors
         ''docker:Image'' None ex_store []
       = (Return (Inr (NewResourcePackage ex_ToLowerCamel (ex_docker (Some (ex_version 4))),
                       ''docker:index/image:Image'')),
          ex_store,
          [''docker'', ''docker:Image'', ''docker:index:Image'', ''docker:index/image:Image''])"
  using
    docker_gate [OF _ ex_loadPackage_docker [of "Some (ex_version 3)" None]]
    docker_gate [OF _ ex_loadPackage_docker [of "Some (ex_version 3)" "Some (ex_version 4)"]]
    docker_gate [OF _ ex_loadPackage_docker [of "Some (ex_version 4)" None]]
  by (simp add: docker3ResourceNames_def versionAtMost3_def ex_version_sel
        NewResourcePackage_def ex_docker_sel ex_resolve_docker)

subsection \<open>The scan: the sort\<close>

lemma packageLess_specBefore: "packageLess a b = specBefore a b"
  by (auto simp: packageLess_def specBefore_def split: option.splits)

lemma specBefore_sortKey: "specBefore a b = (sortKey a < sortKey b)"
  by (auto simp: specBefore_def sortKey_def split: option.splits)

lemma packageLess_sortKey: "packageLess = (\<lambda>a b. sortKey a < sortKey b)"
  by (intro ext) (simp add: packageLess_specBefore specBefore_sortKey)

lemma sortKey_effectiveName: "sortKey a = sortKey b \<Longrightarrow> effectiveName a = effectiveName b"
  by (auto simp: sortKey_def effectiveName_def split: option.splits)

lemma mset_sort_insert: "mset (sort_insert lt x xs) = add_mset x (mset xs)"
  by (induction xs) auto

lemma mset_sort_Slice: "mset (sort_Slice lt xs) = mset xs"
  by (induction xs) (auto simp: mset_sort_insert)

lemma set_sort_Slice: "set (sort_Slice lt xs) = set xs"
  using mset_sort_Slice [of lt xs] by (metis set_mset_mset)

lemma sorted_sort_insert:
  fixes f :: "'a \<Rightarrow> 'k::linorder"
  shows "sorted (map f xs) \<Longrightarrow> sorted (map f (sort_insert (\<lambda>a b. f a < f b) x xs))"
  by (induction xs) (auto simp: set_mset_mset [symmetric] mset_sort_insert simp del: set_mset_mset)

lemma sorted_sort_Slice:
  fixes f :: "'a \<Rightarrow> 'k::linorder"
  shows "sorted (map f (sort_Slice (\<lambda>a b. f a < f b) xs))"
  by (induction xs) (auto intro: sorted_sort_insert)

lemma distinct_sortKey: "distinct (map effectiveName xs) \<Longrightarrow> distinct (map sortKey xs)"
  by (induction xs) (auto dest: sortKey_effectiveName simp: image_iff)

lemma strictly_sorted_sort_Slice:
  assumes "distinct (map effectiveName xs)"
  shows "sorted_wrt specBefore (sort_Slice packageLess xs)"
proof -
  let ?out = "sort_Slice packageLess xs"
  have "mset (map effectiveName ?out) = mset (map effectiveName xs)"
    by (simp add: mset_sort_Slice)
  then have "distinct (map effectiveName ?out)"
    using assms by (metis mset_eq_imp_distinct_iff)
  then have d: "distinct (map sortKey ?out)" by (rule distinct_sortKey)
  have s: "sorted (map sortKey ?out)"
    unfolding packageLess_sortKey by (rule sorted_sort_Slice)
  from s d have "sorted_wrt (<) (map sortKey ?out)" by (simp add: strict_sorted_iff)
  then have "sorted_wrt (\<lambda>a b. sortKey a < sortKey b) ?out" by (simp add: sorted_wrt_map)
  then show ?thesis by (simp add: specBefore_sortKey [abs_def])
qed

text \<open>
  Two lists with the same elements, both in the order of the specification, are equal: the
  sorted output does not depend on how it was sorted, nor on the order in which the map was
  read.
\<close>

lemma sorted_specBefore_unique:
  assumes "sorted_wrt specBefore xs" and "sorted_wrt specBefore ys" and "set xs = set ys"
  shows "xs = ys"
proof -
  have k: "sorted_wrt (<) (map sortKey zs)" if "sorted_wrt specBefore zs" for zs
    using that by (simp add: sorted_wrt_map specBefore_sortKey [abs_def])
  have sx: "sorted (map sortKey xs)" "distinct (map sortKey xs)"
    using k [OF assms(1)] by (simp_all add: strict_sorted_iff)
  have sy: "sorted (map sortKey ys)" "distinct (map sortKey ys)"
    using k [OF assms(2)] by (simp_all add: strict_sorted_iff)
  from sx(2) have "inj_on sortKey (set xs)" by (simp add: distinct_map)
  with assms(3) have "inj_on sortKey (set xs \<union> set ys)" by simp
  then show ?thesis
    using sx sy assms(3) by (rule map_sorted_distinct_set_unique)
qed

subsection \<open>The scan: the invariant of the package map\<close>

lemma set_update_cases:
  "(k', v') \<in> set (AList.update k v al) \<Longrightarrow> (k', v') = (k, v) \<or> (k', v') \<in> set al"
  by (induction al) (auto split: if_splits)

lemma wfMap_update:
  "wfMap m \<Longrightarrow> k = effectiveName d \<Longrightarrow> wfMap (AList.update k d m)"
  by (auto simp: wfMap_def list_all_iff distinct_update dest: set_update_cases)

lemma wfMap_lookup: "wfMap m \<Longrightarrow> map_of m k = Some e \<Longrightarrow> effectiveName e = k"
  by (auto simp: wfMap_def list_all_iff dest: map_of_SomeD)

lemma effectiveName_update [simp]:
  "effectiveName (e\<lparr>pd_Version := v\<rparr>) = effectiveName e"
  "effectiveName (e\<lparr>pd_DownloadURL := u\<rparr>) = effectiveName e"
  by (simp_all add: effectiveName_def split: option.splits)

lemma wfMap_declarePackage: "wfMap m \<Longrightarrow> wfMap (declarePackage pkg m)"
  by (auto simp: declarePackage_def Let_def effectiveName_def [of pkg] wfMap_lookup
        intro!: wfMap_update split: option.splits)

lemma wfMap_declarePackages: "wfMap m \<Longrightarrow> wfMap (declarePackages pkgs m)"
  by (induction pkgs arbitrary: m) (auto simp: wfMap_declarePackage)

lemma wfMap_acceptType: "wfMap (fst st) \<Longrightarrow> wfMap (fst (acceptType t v u st))"
  by (cases st)
    (auto simp: acceptType_def Let_def wfMap_lookup
        effectiveName_def [of "\<lparr>pd_Name = _, pd_Version = _, pd_DownloadURL = _,
                                 pd_Parameterization = None\<rparr>"]
        intro!: wfMap_update split: option.splits)

lemma wfMap_visit: "wfMap (fst st) \<Longrightarrow> wfMap (fst (visit node st))"
  by (auto simp: visit_def wfMap_acceptType split: Visit.splits Expr.splits option.splits)

lemma wfMap_Run: "wfMap (fst st) \<Longrightarrow> wfMap (fst (Run nodes st))"
  by (induction nodes arbitrary: st) (auto simp: wfMap_visit)

lemma wfMap_scanTemplate: "wfMap (fst (scanTemplate tmpl))"
proof -
  have "wfMap []" by (simp add: wfMap_def)
  then have "wfMap (declarePackages (tm_Packages tmpl) [])" by (rule wfMap_declarePackages)
  then show ?thesis unfolding scanTemplate_def by (simp add: wfMap_Run)
qed

lemma wfMap_distinct_values: "wfMap m \<Longrightarrow> distinct (map effectiveName (map snd m))"
proof -
  assume w: "wfMap m"
  then have "map fst m = map effectiveName (map snd m)"
    by (auto simp: wfMap_def list_all_iff)
  with w show ?thesis by (simp add: wfMap_def)
qed

lemma wfMap_Cons: "wfMap (x # m) \<Longrightarrow> wfMap m"
  by (simp add: wfMap_def)

lemma wfMap_no_key:
  "wfMap m \<Longrightarrow> n \<notin> fst ` set m \<Longrightarrow> filter (\<lambda>x. effectiveName x = n) (map snd m) = []"
  by (force simp: wfMap_def list_all_iff filter_empty_conv)

lemma wfMap_single_entry:
  "wfMap m \<Longrightarrow> map_of m n = Some e \<Longrightarrow> filter (\<lambda>x. effectiveName x = n) (map snd m) = [e]"
proof (induction m)
  case Nil
  then show ?case by simp
next
  case (Cons x m)
  obtain k d where x: "x = (k, d)" by (cases x)
  from Cons.prems(1) have w: "wfMap m" by (rule wfMap_Cons)
  from Cons.prems(1) x have kd: "k = effectiveName d" and nk: "k \<notin> fst ` set m"
    by (auto simp: wfMap_def)
  show ?case
  proof (cases "k = n")
    case True
    with Cons.prems(2) x have "d = e" by simp
    moreover from True nk w have "filter (\<lambda>x. effectiveName x = n) (map snd m) = []"
      by (simp add: wfMap_no_key)
    ultimately show ?thesis using True kd x by simp
  next
    case False
    with Cons.prems(2) x have "map_of m n = Some e" by simp
    with w Cons.IH have "filter (\<lambda>x. effectiveName x = n) (map snd m) = [e]" by simp
    with False kd x show ?thesis by simp
  qed
qed

subsection \<open>The scan: the first declaration of a name\<close>

lemma declarePackage_other:
  "effectiveName pkg \<noteq> n \<Longrightarrow> map_of (declarePackage pkg m) n = map_of m n"
  by (auto simp: declarePackage_def Let_def effectiveName_def update_conv' split: option.splits)

lemma holdsFirst_declarePackage:
  "pd_Version d \<noteq> [] \<Longrightarrow> holdsFirst n d m \<Longrightarrow> holdsFirst n d (declarePackage pkg m)"
proof (cases "effectiveName pkg = n")
  case False
  assume "holdsFirst n d m"
  with False show ?thesis by (simp add: holdsFirst_def declarePackage_other)
next
  case True
  assume "pd_Version d \<noteq> []" "holdsFirst n d m"
  with True show ?thesis
    by (auto simp: holdsFirst_def declarePackage_def Let_def effectiveName_def update_conv'
          split: option.splits)
qed

lemma holdsFirst_declarePackages:
  "pd_Version d \<noteq> [] \<Longrightarrow> holdsFirst n d m \<Longrightarrow> holdsFirst n d (declarePackages pkgs m)"
  by (induction pkgs arbitrary: m) (auto simp: holdsFirst_declarePackage)

lemma holdsFirst_acceptType:
  "pd_Version d \<noteq> [] \<Longrightarrow> holdsFirst n d (fst st)
     \<Longrightarrow> holdsFirst n d (fst (acceptType t v u st))"
  by (cases st; cases "ResolvePkgName t = n")
    (auto simp: holdsFirst_def acceptType_def Let_def update_conv' split: option.splits)

lemma holdsFirst_visit:
  "pd_Version d \<noteq> [] \<Longrightarrow> holdsFirst n d (fst st) \<Longrightarrow> holdsFirst n d (fst (visit node st))"
  by (auto simp: visit_def holdsFirst_acceptType split: Visit.splits Expr.splits option.splits)

lemma holdsFirst_Run:
  "pd_Version d \<noteq> [] \<Longrightarrow> holdsFirst n d (fst st) \<Longrightarrow> holdsFirst n d (fst (Run nodes st))"
  by (induction nodes arbitrary: st) (auto simp: holdsFirst_visit)

lemma holdsFirst_first_declaration:
  "map_of m n = None \<Longrightarrow> List.find (\<lambda>d. effectiveName d = n) pkgs = Some d1
     \<Longrightarrow> pd_Version d1 \<noteq> [] \<Longrightarrow> holdsFirst n d1 (declarePackages pkgs m)"
proof (induction pkgs arbitrary: m)
  case Nil
  then show ?case by simp
next
  case (Cons pkg pkgs)
  show ?case
  proof (cases "effectiveName pkg = n")
    case True
    with Cons.prems have "d1 = pkg" by simp
    with True Cons.prems(1) have "holdsFirst n d1 (declarePackage pkg m)"
      by (auto simp: holdsFirst_def declarePackage_def Let_def effectiveName_def update_conv'
            split: option.splits)
    with Cons.prems(3) show ?thesis by (simp add: holdsFirst_declarePackages)
  next
    case False
    with Cons.prems have "List.find (\<lambda>d. effectiveName d = n) pkgs = Some d1" by simp
    moreover from False Cons.prems(1) have "map_of (declarePackage pkg m) n = None"
      by (simp add: declarePackage_other)
    ultimately show ?thesis using Cons.IH Cons.prems(3) by simp
  qed
qed

subsection \<open>The scan: the versions seen for one package\<close>

lemma acceptType_other:
  "ResolvePkgName t \<noteq> p \<Longrightarrow>
     versionOf p (fst (acceptType t v u st)) = versionOf p (fst st)
     \<and> filter (isVersionConflictOf p) (snd (acceptType t v u st))
         = filter (isVersionConflictOf p) (snd st)"
  by (cases st)
    (auto simp: acceptType_def Let_def versionOf_def update_conv' isVersionConflictOf_def
       ExprError_def split: option.splits)

lemma acceptType_no_version:
  "GetValue v = [] \<Longrightarrow>
     versionOf p (fst (acceptType t v u st)) = versionOf p (fst st)
     \<and> filter (isVersionConflictOf p) (snd (acceptType t v u st))
         = filter (isVersionConflictOf p) (snd st)"
  by (cases st; cases "ResolvePkgName t = p")
    (auto simp: acceptType_def Let_def versionOf_def update_conv' isVersionConflictOf_def
       ExprError_def split: option.splits)

lemma visit_statesNoVersionFor:
  "statesNoVersionFor p node \<Longrightarrow>
     versionOf p (fst (visit node st)) = versionOf p (fst st)
     \<and> filter (isVersionConflictOf p) (snd (visit node st))
         = filter (isVersionConflictOf p) (snd st)"
  by (auto simp: statesNoVersionFor_def visit_def acceptType_other acceptType_no_version
        isVersionConflictOf_def NodeError_def GetValue_def
        split: Visit.splits Expr.splits option.splits)

lemma Run_statesNoVersionFor:
  "list_all (statesNoVersionFor p) nodes \<Longrightarrow>
     versionOf p (fst (Run nodes st)) = versionOf p (fst st)
     \<and> filter (isVersionConflictOf p) (snd (Run nodes st))
         = filter (isVersionConflictOf p) (snd st)"
  by (induction nodes arbitrary: st) (auto simp: visit_statesNoVersionFor)

lemma Run_append: "Run (xs @ ys) st = Run ys (Run xs st)"
  by (induction xs arbitrary: st) auto

lemma acceptType_first_version:
  "ResolvePkgName t = p \<Longrightarrow> GetValue v \<noteq> [] \<Longrightarrow> versionOf p (fst st) = [] \<Longrightarrow>
     versionOf p (fst (acceptType t v u st)) = GetValue v
     \<and> filter (isVersionConflictOf p) (snd (acceptType t v u st))
         = filter (isVersionConflictOf p) (snd st)"
  by (cases st)
    (auto simp: acceptType_def Let_def versionOf_def update_conv' isVersionConflictOf_def
       ExprError_def split: option.splits)

lemma acceptType_conflict:
  "ResolvePkgName t = p \<Longrightarrow> GetValue v \<noteq> [] \<Longrightarrow> versionOf p (fst st) \<noteq> [] \<Longrightarrow>
   versionOf p (fst st) \<noteq> GetValue v \<Longrightarrow>
     versionOf p (fst (acceptType t v u st)) = versionOf p (fst st)
     \<and> filter (isVersionConflictOf p) (snd (acceptType t v u st))
         = filter (isVersionConflictOf p) (snd st)
           @ [ExprError v (ConflictingVersion p (versionOf p (fst st)))]"
  by (cases st)
    (auto simp: acceptType_def Let_def versionOf_def update_conv' isVersionConflictOf_def
       ExprError_def split: option.splits)

lemma declarePackages_other:
  "list_all (\<lambda>d. effectiveName d \<noteq> p) pkgs \<Longrightarrow>
     map_of (declarePackages pkgs m) p = map_of m p"
  by (induction pkgs arbitrary: m) (auto simp: declarePackage_other)


lemma versionOf_entry:
  "versionOf p m \<noteq> [] \<Longrightarrow> \<exists>e. map_of m p = Some e \<and> pd_Version e = versionOf p m"
  by (auto simp: versionOf_def split: option.splits)

subsection \<open>The scan: evaluation on the concrete templates\<close>

lemmas ex_scan_defs =
  GetReferencedPackages_def scanTemplate_def visit_def acceptType_def declarePackage_def
  HasErrors_def ExprError_def NodeError_def GetValue_def ResolvePkgName_def packageLess_def
  ex_resource_def ex_package_def ex_parameterized_def Let_def

lemma ex_S2_scan:
  "scanTemplate ex_S2 =
     ([(''aws'', ex_package ''aws'' ''6.0.0'')],
      [\<lparr>dg_Severity = DiagError, dg_Subject = Some 22,
        dg_Summary = ConflictingVersion ''aws'' ''6.0.0''\<rparr>])"
  by (simp add: ex_S2_def ex_scan_defs)

lemma ex_S2_walk_scan:
  "scanTemplate ex_S2_walk =
     ([(''gcp'', ex_package ''gcp'' ''7.0.0''), (''aws'', ex_package ''aws'' ''6.0.0'')],
      [\<lparr>dg_Severity = DiagError, dg_Subject = Some 22,
        dg_Summary = ConflictingVersion ''aws'' ''6.0.0''\<rparr>])"
  by (simp add: ex_S2_walk_def ex_scan_defs)

lemma ex_duplicate_scan:
  "scanTemplate ex_duplicate = ([(''aws'', ex_package ''aws'' ''6.0.0'')], [])"
  by (simp add: ex_duplicate_def ex_scan_defs)

lemma ex_duplicate_result:
  "GetReferencedPackages ex_duplicate = ([ex_package ''aws'' ''6.0.0''], [])"
  by (simp add: ex_duplicate_def ex_scan_defs)

lemma ex_versions_result:
  "GetReferencedPackages ex_versions =
     ([ex_parameterized ''terraform-provider'' ''10.0.0'' ''tls'' ''1.0.0'',
       ex_parameterized ''terraform-provider'' ''9.0.0'' ''random'' ''1.0.0''], [])"
  by (simp add: ex_versions_def ex_scan_defs)

subsection \<open>The scan: the claims\<close>

text \<open>
  Claim C1, as stated, fails. The claim is that for two resources of one package with
  different non-empty versions the scan emits one conflicting-version diagnostic on the second
  and returns a list with a single entry for the package, carrying the first version. On the
  template of scenario S2 the scan emits that diagnostic, on the version of the second
  resource, and returns the empty list: the diagnostic is an error, and
  \<^verbatim>\<open>GetReferencedPackages\<close> returns nil when the diagnostics have errors.
\<close>

theorem conflicting_versions_counterexample:
  "GetReferencedPackages ex_S2 =
     ([], [\<lparr>dg_Severity = DiagError, dg_Subject = Some 22,
             dg_Summary = ConflictingVersion ''aws'' ''6.0.0''\<rparr>])"
  by (simp add: GetReferencedPackages_def ex_S2_scan HasErrors_def)

text \<open>
  Claim C1, amended. Let the packages section not declare the package \<open>p\<close>, and let the walk
  visit two resources of \<open>p\<close> with different non-empty versions, every other visit bringing
  no version for \<open>p\<close> (expressions that are not invokes, nodes of other packages, nodes of
  \<open>p\<close> without a version), whatever else the template holds. Then the scan emits exactly one
  conflicting-version diagnostic for \<open>p\<close>, on the version of the second resource and naming
  the first version; the package list returned is empty, since the diagnostic is an error; and
  the package map of the scan has exactly one entry for \<open>p\<close>, carrying the first-seen
  version.
\<close>

theorem conflicting_resource_versions:
  assumes pk: "list_all (\<lambda>d. effectiveName d \<noteq> p) (tm_Packages tmpl)"
    and wk: "tm_Walk tmpl = pre @ VisitResource r1 # mid @ VisitResource r2 # post"
    and others: "list_all (statesNoVersionFor p) (pre @ mid @ post)"
    and t1: "rs_Type r1 = Some t1" and t2: "rs_Type r2 = Some t2"
    and p1: "ResolvePkgName (se_Value t1) = p" and p2: "ResolvePkgName (se_Value t2) = p"
    and v1: "GetValue (rs_Version r1) \<noteq> []" and v2: "GetValue (rs_Version r2) \<noteq> []"
    and ne: "GetValue (rs_Version r1) \<noteq> GetValue (rs_Version r2)"
  shows "fst (GetReferencedPackages tmpl) = []
       \<and> filter (isVersionConflictOf p) (snd (GetReferencedPackages tmpl))
           = [ExprError (rs_Version r2) (ConflictingVersion p (GetValue (rs_Version r1)))]
       \<and> (\<exists>e. filter (\<lambda>x. effectiveName x = p) (map snd (fst (scanTemplate tmpl))) = [e]
                \<and> pd_Version e = GetValue (rs_Version r1))"
proof -
  let ?vc = "filter (isVersionConflictOf p)"
  define s0 :: "PackageMap \<times> Diagnostic list"
    where "s0 = (declarePackages (tm_Packages tmpl) [], [])"
  define s1 where "s1 = Run pre s0"
  define s2 where "s2 = visit (VisitResource r1) s1"
  define s3 where "s3 = Run mid s2"
  define s4 where "s4 = visit (VisitResource r2) s3"
  define s5 where "s5 = Run post s4"
  from others have qpre: "list_all (statesNoVersionFor p) pre"
    and qmid: "list_all (statesNoVersionFor p) mid"
    and qpost: "list_all (statesNoVersionFor p) post"
    by simp_all
  have sc: "scanTemplate tmpl = s5"
    by (simp add: scanTemplate_def wk Run_append s0_def s1_def s2_def s3_def s4_def s5_def)
  have a0: "versionOf p (fst s0) = []" "?vc (snd s0) = []"
    using pk by (simp_all add: s0_def versionOf_def declarePackages_other)
  have a1: "versionOf p (fst s1) = []" "?vc (snd s1) = []"
    using Run_statesNoVersionFor [OF qpre, of s0] a0 by (simp_all add: s1_def)
  have a2: "versionOf p (fst s2) = GetValue (rs_Version r1)" "?vc (snd s2) = []"
    using acceptType_first_version [OF p1 v1 a1(1), of "rs_PluginDownloadURL r1"] a1(2) t1
    by (simp_all add: s2_def visit_def)
  have a3: "versionOf p (fst s3) = GetValue (rs_Version r1)" "?vc (snd s3) = []"
    using Run_statesNoVersionFor [OF qmid, of s2] a2 by (simp_all add: s3_def)
  have a4: "versionOf p (fst s4) = GetValue (rs_Version r1)"
    "?vc (snd s4) = [ExprError (rs_Version r2) (ConflictingVersion p (GetValue (rs_Version r1)))]"
    using acceptType_conflict [OF p2 v2, of s3 "rs_PluginDownloadURL r2"] a3 v1 ne t2
    by (simp_all add: s4_def visit_def)
  have a5: "versionOf p (fst s5) = GetValue (rs_Version r1)"
    "?vc (snd s5) = [ExprError (rs_Version r2) (ConflictingVersion p (GetValue (rs_Version r1)))]"
    using Run_statesNoVersionFor [OF qpost, of s4] a4 by (simp_all add: s5_def)
  from a5(2) have "ExprError (rs_Version r2) (ConflictingVersion p (GetValue (rs_Version r1)))
                     \<in> set (?vc (snd s5))"
    by simp
  then have "ExprError (rs_Version r2) (ConflictingVersion p (GetValue (rs_Version r1)))
               \<in> set (snd s5)"
    by simp
  then have he: "HasErrors (snd s5)"
    unfolding HasErrors_def list_ex_iff by (rule bexI [rotated]) (simp add: ExprError_def)
  have res: "GetReferencedPackages tmpl = ([], snd s5)"
    using he by (cases s5) (simp add: GetReferencedPackages_def sc)
  from a5(1) v1 obtain e where e: "map_of (fst s5) p = Some e"
    and ev: "pd_Version e = GetValue (rs_Version r1)"
    using versionOf_entry [of p "fst s5"] by auto
  have "wfMap (fst s5)" using wfMap_scanTemplate [of tmpl] sc by simp
  then have "filter (\<lambda>x. effectiveName x = p) (map snd (fst s5)) = [e]"
    using e by (rule wfMap_single_entry)
  with ev a5(2) res sc show ?thesis by simp
qed

theorem conflicting_resource_versions_witness:
  "ResolvePkgName ''aws:s3:Bucket'' = ''aws'' \<and> ResolvePkgName ''aws:ec2:Instance'' = ''aws''
   \<and> statesNoVersionFor ''aws'' (VisitExpr OtherExpr)
   \<and> statesNoVersionFor ''aws'' (VisitResource (ex_resource ''disk'' 30 ''gcp:compute:Disk'' ''7.0.0''))
   \<and> GetReferencedPackages ex_S2_walk =
       ([], [ExprError (Some \<lparr>se_Value = ''6.1.0'', se_Syntax = 22\<rparr>)
               (ConflictingVersion ''aws'' ''6.0.0'')])
   \<and> map snd (fst (scanTemplate ex_S2_walk)) =
       [ex_package ''gcp'' ''7.0.0'', ex_package ''aws'' ''6.0.0'']"
  using conflicting_resource_versions [of "''aws''" ex_S2_walk "[]"
      "ex_resource ''bucket'' 10 ''aws:s3:Bucket'' ''6.0.0''"
      "[VisitExpr OtherExpr, VisitResource (ex_resource ''disk'' 30 ''gcp:compute:Disk'' ''7.0.0'')]"
      "ex_resource ''instance'' 20 ''aws:ec2:Instance'' ''6.1.0''"
      "[VisitExpr OtherExpr]"
      "\<lparr>se_Value = ''aws:s3:Bucket'', se_Syntax = 11\<rparr>"
      "\<lparr>se_Value = ''aws:ec2:Instance'', se_Syntax = 21\<rparr>"]
  by (simp add: ex_S2_walk_scan GetReferencedPackages_def HasErrors_def ExprError_def
        statesNoVersionFor_def ex_resource_def ResolvePkgName_def)

text \<open>
  Claim C7. The package list that \<^verbatim>\<open>GetReferencedPackages\<close> returns is in the order of
  the specification's key: each entry comes before every later one by name ascending; then by
  version ascending, the version strings compared lexicographically; then, when both lack a
  parameterization, by download URL ascending; otherwise the one without a parameterization
  first; otherwise by parameterization name, then parameterization version. The comparison of
  the code is this relation. For two entries of one name with the versions 9.0.0 and 10.0.0,
  the entry of version 10.0.0 comes first.
\<close>

theorem output_sorted_by_specification_key:
  "sorted_wrt specBefore (fst (GetReferencedPackages tmpl))
   \<and> (\<forall>a b. packageLess a b = specBefore a b)
   \<and> fst (GetReferencedPackages ex_versions) =
       [ex_parameterized ''terraform-provider'' ''10.0.0'' ''tls'' ''1.0.0'',
        ex_parameterized ''terraform-provider'' ''9.0.0'' ''random'' ''1.0.0'']"
proof (intro conjI allI)
  obtain packageMap diags where sc: "scanTemplate tmpl = (packageMap, diags)"
    by (cases "scanTemplate tmpl")
  have "wfMap packageMap" using wfMap_scanTemplate [of tmpl] sc by simp
  then have "distinct (map effectiveName (map snd packageMap))"
    by (rule wfMap_distinct_values)
  then have "distinct (map effectiveName
                (filter (\<lambda>pkg. pd_Name pkg \<noteq> ''pulumi'') (map snd packageMap)))"
    by (rule distinct_map_filter)
  then show "sorted_wrt specBefore (fst (GetReferencedPackages tmpl))"
    by (simp add: GetReferencedPackages_def sc strictly_sorted_sort_Slice)
  show "packageLess a b = specBefore a b" for a b
    by (rule packageLess_specBefore)
  show "fst (GetReferencedPackages ex_versions) =
       [ex_parameterized ''terraform-provider'' ''10.0.0'' ''tls'' ''1.0.0'',
        ex_parameterized ''terraform-provider'' ''9.0.0'' ''random'' ''1.0.0'']"
    by (simp add: ex_versions_result)
qed

text \<open>
  Claim C9. The package list that \<^verbatim>\<open>GetReferencedPackages\<close> returns has no entry named
  \<open>pulumi\<close>, for every template: whether the package was declared in the packages section or
  inferred from a type token, its entry is dropped.
\<close>

theorem output_without_pulumi:
  "''pulumi'' \<notin> pd_Name ` set (fst (GetReferencedPackages tmpl))"
  by (auto simp: GetReferencedPackages_def set_sort_Slice split: prod.splits)

text \<open>
  Claim C10, as stated, fails. The claim is that for every template whose packages section
  declares a name twice with differing non-empty versions, the scan keeps the first version
  and the output has a single entry for the name. With such a packages section:
  \<^item> when a resource of the template has no type, the scan has an error diagnostic and the
    output is empty;
  \<^item> when the name declared twice is \<open>pulumi\<close>, the output is empty;
  \<^item> when the two declarations are parameterized (effective versions 1.0.0 and 2.0.0) and
    their own version is empty, the entry of the output has the version 2.0.0, of the second
    declaration.
\<close>

theorem first_declaration_counterexample:
  "GetReferencedPackages ex_duplicate_untyped =
     ([], [\<lparr>dg_Severity = DiagError, dg_Subject = Some 10,
             dg_Summary = ResourceWithoutType ''bucket''\<rparr>])
   \<and> GetReferencedPackages ex_duplicate_pulumi = ([], [])
   \<and> GetReferencedPackages ex_duplicate_parameterized =
       ([ex_parameterized ''terraform-provider'' ''2.0.0'' ''random'' ''1.0.0''], [])"
  by (simp add: ex_duplicate_untyped_def ex_duplicate_pulumi_def ex_duplicate_parameterized_def
        ex_scan_defs)

text \<open>
  Claim C10, amended. Let \<open>d1\<close> be the first declaration of the packages section with the
  effective name \<open>n\<close>, and let its own version be non-empty. Then, whatever the later
  declarations of \<open>n\<close> and the nodes of the template say:
  \<^item> after the scan the package map binds \<open>n\<close> to an entry with the name, the version and the
    parameterization of \<open>d1\<close>;
  \<^item> the packages section alone yields no diagnostic;
  \<^item> when the scan has no error diagnostic and the name of \<open>d1\<close> is not \<open>pulumi\<close>, the output
    has exactly one entry of effective name \<open>n\<close>, and it carries the version of \<open>d1\<close>.
\<close>

theorem first_declaration_wins:
  assumes "List.find (\<lambda>d. effectiveName d = n) (tm_Packages tmpl) = Some d1"
    and "pd_Version d1 \<noteq> []"
  shows "holdsFirst n d1 (fst (scanTemplate tmpl))
       \<and> snd (scanTemplate (tmpl\<lparr>tm_Walk := []\<rparr>)) = []
       \<and> (\<not> HasErrors (snd (scanTemplate tmpl)) \<and> pd_Name d1 \<noteq> ''pulumi''
            \<longrightarrow> (\<exists>e. filter (\<lambda>x. effectiveName x = n) (fst (GetReferencedPackages tmpl)) = [e]
                      \<and> pd_Name e = pd_Name d1 \<and> pd_Version e = pd_Version d1
                      \<and> pd_Parameterization e = pd_Parameterization d1))"
proof (intro conjI impI)
  have "holdsFirst n d1 (declarePackages (tm_Packages tmpl) [])"
    using assms by (simp add: holdsFirst_first_declaration)
  then show h: "holdsFirst n d1 (fst (scanTemplate tmpl))"
    unfolding scanTemplate_def using assms(2) by (simp add: holdsFirst_Run)
  show "snd (scanTemplate (tmpl\<lparr>tm_Walk := []\<rparr>)) = []"
    by (simp add: scanTemplate_def)
  assume ok: "\<not> HasErrors (snd (scanTemplate tmpl)) \<and> pd_Name d1 \<noteq> ''pulumi''"
  obtain packageMap diags where sc: "scanTemplate tmpl = (packageMap, diags)"
    by (cases "scanTemplate tmpl")
  from h sc obtain e where e: "map_of packageMap n = Some e"
    and fields: "pd_Name e = pd_Name d1" "pd_Version e = pd_Version d1"
      "pd_Parameterization e = pd_Parameterization d1"
    by (auto simp: holdsFirst_def split: option.splits)
  have "wfMap packageMap" using wfMap_scanTemplate [of tmpl] sc by simp
  then have one: "filter (\<lambda>x. effectiveName x = n) (map snd packageMap) = [e]"
    using e by (rule wfMap_single_entry)
  let ?kept = "filter (\<lambda>pkg. pd_Name pkg \<noteq> ''pulumi'') (map snd packageMap)"
  have out: "fst (GetReferencedPackages tmpl) = sort_Slice packageLess ?kept"
    using ok sc by (simp add: GetReferencedPackages_def)
  have "mset (filter (\<lambda>x. effectiveName x = n) (sort_Slice packageLess ?kept))
          = mset (filter (\<lambda>pkg. pd_Name pkg \<noteq> ''pulumi'')
                    (filter (\<lambda>x. effectiveName x = n) (map snd packageMap)))"
    by (simp add: mset_sort_Slice filter_filter_mset conj_commute)
  also have "\<dots> = {#e#}" using one ok fields by simp
  finally have "mset (filter (\<lambda>x. effectiveName x = n) (sort_Slice packageLess ?kept)) = {#e#}" .
  then have "filter (\<lambda>x. effectiveName x = n) (sort_Slice packageLess ?kept) = [e]"
    by (simp only: mset_single_iff)
  then have "filter (\<lambda>x. effectiveName x = n) (fst (GetReferencedPackages tmpl)) = [e]"
    by (simp only: out)
  with fields
  show "\<exists>e. filter (\<lambda>x. effectiveName x = n) (fst (GetReferencedPackages tmpl)) = [e]
            \<and> pd_Name e = pd_Name d1 \<and> pd_Version e = pd_Version d1
            \<and> pd_Parameterization e = pd_Parameterization d1"
    by blast
qed

theorem first_declaration_wins_witness:
  "tm_Packages ex_duplicate = [ex_package ''aws'' ''6.0.0'', ex_package ''aws'' ''6.1.0'']
   \<and> effectiveName (ex_package ''aws'' ''6.0.0'') = ''aws''
   \<and> effectiveName (ex_package ''aws'' ''6.1.0'') = ''aws''
   \<and> pd_Version (ex_package ''aws'' ''6.0.0'') \<noteq> []
   \<and> holdsFirst ''aws'' (ex_package ''aws'' ''6.0.0'') (fst (scanTemplate ex_duplicate))
   \<and> \<not> HasErrors (snd (scanTemplate ex_duplicate))
   \<and> pd_Name (ex_package ''aws'' ''6.0.0'') \<noteq> ''pulumi''
   \<and> GetReferencedPackages ex_duplicate = ([ex_package ''aws'' ''6.0.0''], [])"
  using first_declaration_wins [of "''aws''" ex_duplicate "ex_package ''aws'' ''6.0.0''"]
  by (simp add: ex_duplicate_result ex_duplicate_scan HasErrors_def)
    (simp add: ex_duplicate_def ex_package_def effectiveName_def)

end
